theory Spec2Isabelle
  imports Main "HOL-Library.Sublist"
begin

section \<open>JavaScript values and string builtins\<close>

text \<open>
  A JavaScript string is a sequence of UTF-16 code units; a code unit is a number from 0
  to 65535. The literals of the source are ASCII and are written \<open>js ''...''\<close>. The message
  of a thrown \<^verbatim>\<open>Error\<close> is a string, and a function that may throw returns
  \<open>Inl message\<close>.
\<close>

type_synonym codeUnit = int

type_synonym jsstring = "codeUnit list"

definition js :: "string \<Rightarrow> jsstring" where
  "js s = map of_char s"

type_synonym err = jsstring

datatype jsval =
    JUndefined
  | JNull
  | JBool bool
  | JNum int
  | JStr jsstring
  | JArr "jsval list"
  | JObj "(jsstring \<times> jsval) list"

text \<open>
  The code units that \<^verbatim>\<open>String.prototype.trim\<close> removes: the white space of ECMAScript
  (TAB, VT, FF, SP, NBSP, ZWNBSP and the space separators of Unicode) and its line
  terminators (LF, CR, LS, PS).
\<close>

definition isWhiteSpace :: "codeUnit \<Rightarrow> bool" where
  "isWhiteSpace c \<longleftrightarrow>
     c \<in> set [0x0009, 0x000A, 0x000B, 0x000C, 0x000D, 0x0020, 0x00A0, 0x1680,
              0x2028, 0x2029, 0x202F, 0x205F, 0x3000, 0xFEFF]
     \<or> (0x2000 \<le> c \<and> c \<le> 0x200A)"

definition trim :: "jsstring \<Rightarrow> jsstring" where
  "trim s = rev (dropWhile isWhiteSpace (rev (dropWhile isWhiteSpace s)))"

text \<open>\<^verbatim>\<open>s.includes(p)\<close>: \<open>p\<close> occurs in \<open>s\<close> as a contiguous substring.\<close>

definition includesStr :: "jsstring \<Rightarrow> jsstring \<Rightarrow> bool" where
  "includesStr s p \<longleftrightarrow> sublist p s"

text \<open>\<^verbatim>\<open>s.endsWith(p)\<close>.\<close>

definition endsWith :: "jsstring \<Rightarrow> jsstring \<Rightarrow> bool" where
  "endsWith s p \<longleftrightarrow> suffix p s"

text \<open>Decimal rendering of a length inside a template literal.\<close>

fun natToString :: "nat \<Rightarrow> jsstring" where
  "natToString n =
     (if n < 10 then [0x30 + int n]
      else natToString (n div 10) @ [0x30 + int (n mod 10)])"

declare natToString.simps [simp del]

text \<open>A value is falsy when it is \<^verbatim>\<open>undefined\<close>/\<^verbatim>\<open>null\<close> (here \<open>None\<close>) or the empty string.\<close>

definition truthy :: "jsstring option \<Rightarrow> bool" where
  "truthy v = (case v of None \<Rightarrow> False | Some s \<Rightarrow> s \<noteq> [])"

subsection \<open>Global replacement of a fence marker\<close>

text \<open>
  \<^verbatim>\<open>s.replace(/M\n?/g, '')\<close> for a literal, non-empty marker \<open>M\<close>: matches are found from
  left to right and do not overlap; a match takes the line feed that follows the marker
  when there is one.
\<close>

definition dropNewline :: "jsstring \<Rightarrow> jsstring" where
  "dropNewline s = (case s of [] \<Rightarrow> [] | c # cs \<Rightarrow> if c = 0x000A then cs else c # cs)"

function replaceMarker :: "jsstring \<Rightarrow> jsstring \<Rightarrow> jsstring" where
  "replaceMarker m s =
     (if m \<noteq> [] \<and> prefix m s then replaceMarker m (dropNewline (drop (length m) s))
      else (case s of [] \<Rightarrow> [] | c # cs \<Rightarrow> c # replaceMarker m cs))"
  by pat_completeness auto
termination
  by (relation "measure (\<lambda>(m, s). length s)")
     (auto simp: dropNewline_def prefix_def split: list.splits if_splits)

declare replaceMarker.simps [simp del]

text \<open>
  The clean-up of \<^verbatim>\<open>generateSQL\<close>:
  \<^verbatim>\<open>response.text().trim().replace(/```sql\n?/g, '').replace(/```\n?/g, '').trim()\<close>.
\<close>

definition cleanSql :: "jsstring \<Rightarrow> jsstring" where
  "cleanSql text = trim (replaceMarker (js ''```'') (replaceMarker (js ''```sql'') (trim text)))"

text \<open>\<^verbatim>\<open>v || d\<close> on a string that may be absent.\<close>

definition orDefault :: "jsstring option \<Rightarrow> jsstring \<Rightarrow> jsstring" where
  "orDefault v d = (case v of None \<Rightarrow> d | Some s \<Rightarrow> if s \<noteq> [] then s else d)"

text \<open>\<^verbatim>\<open>v ? f(v) : ''\<close> on a string that may be absent.\<close>

definition whenTruthy :: "jsstring option \<Rightarrow> (jsstring \<Rightarrow> jsstring) \<Rightarrow> jsstring" where
  "whenTruthy v f = (case v of None \<Rightarrow> [] | Some s \<Rightarrow> if s \<noteq> [] then f s else [])"

section \<open>Configuration, external collaborators and service state\<close>

text \<open>The variables of \<^verbatim>\<open>process.env\<close> that the services read.\<close>

record config =
  BIGQUERY_PROJECT_ID :: "jsstring option"
  BIGQUERY_DATASET :: "jsstring option"
  BIGQUERY_LOCATION :: "jsstring option"
  GEMINI_API_KEY :: "jsstring option"
  GEMINI_MODEL_NAME :: "jsstring option"

record field =
  field_name :: jsstring
  field_type :: jsstring
  field_mode :: "jsstring option"
  field_description :: "jsstring option"

text \<open>What \<^verbatim>\<open>table.getMetadata()\<close> reports: \<^verbatim>\<open>metadata.schema.fields\<close> and
  \<^verbatim>\<open>metadata.description\<close>.\<close>

record tableMetadata =
  meta_fields :: "field list"
  meta_description :: "jsstring option"

record tableSchema =
  tableName :: jsstring
  schema :: "field list"
  description :: jsstring

text \<open>
  The remote calls a request can make. The list of calls made so far is kept in the state,
  so that a theorem can say which collaborators were reached.
\<close>

datatype call =
    GetTables
  | GetTableMetadata jsstring
  | GetDatasetMetadata
  | CreateQueryJob jsstring jsstring
  | GenerateContent jsstring

text \<open>
  Everything outside the repository is a parameter: the environment variables, the answers
  of the warehouse client (given the client handle and dataset identifier held by the
  service, \<open>None\<close> being \<^verbatim>\<open>null\<close>), the answer of the generative model (given the model
  handle), \<^verbatim>\<open>JSON.stringify\<close>, the message of the \<^verbatim>\<open>TypeError\<close> that the engine
  raises when \<^verbatim>\<open>undefined\<close> or \<^verbatim>\<open>null\<close> is destructured, the case mapping of
  \<^verbatim>\<open>String.prototype.toUpperCase\<close> (the Unicode tables of the engine: it maps more than
  the ASCII letters and may lengthen a string), and, for promises rejected together, the
  position of the rejection that came first in time. \<open>queryResults\<close> stands for
  \<^verbatim>\<open>createQueryJob\<close> followed by \<^verbatim>\<open>getQueryResults\<close>, \<open>generateText\<close> for
  \<^verbatim>\<open>generateContent\<close> followed by \<^verbatim>\<open>response.text()\<close>.
\<close>

record world =
  processEnv :: config
  datasetGetTables :: "jsstring option \<Rightarrow> jsstring option \<Rightarrow> err + jsstring list"
  tableGetMetadata :: "jsstring option \<Rightarrow> jsstring option \<Rightarrow> jsstring \<Rightarrow> err + tableMetadata"
  datasetGetMetadata :: "jsstring option \<Rightarrow> jsstring option \<Rightarrow> err + jsstring option"
  queryResults :: "jsstring option \<Rightarrow> jsstring \<Rightarrow> jsstring \<Rightarrow> err + jsval list"
  generateText :: "jsstring option \<Rightarrow> jsstring \<Rightarrow> err + jsstring"
  jsonStringify :: "jsval list \<Rightarrow> jsstring"
  destructureError :: "jsval \<Rightarrow> err"
  upperCase :: "jsstring \<Rightarrow> jsstring"
  earliestRejection :: "err list \<Rightarrow> nat"

text \<open>
  \<^verbatim>\<open>s.toUpperCase()\<close>: the case mapping of the engine; the empty string has nothing to
  map.
\<close>

definition toUpperCase :: "world \<Rightarrow> jsstring \<Rightarrow> jsstring" where
  "toUpperCase w s = (if s = [] then [] else upperCase w s)"

text \<open>The fields of the two singleton services, and the calls made so far.\<close>

record services =
  bq_bigquery :: "jsstring option"
  bq_datasetId :: "jsstring option"
  bq_datasetLocation :: "jsstring option"
  bq_initialized :: bool
  gm_genAI :: "jsstring option"
  gm_model :: "jsstring option"
  gm_initialized :: bool
  calls :: "call list"

text \<open>The two constructors: every handle \<^verbatim>\<open>null\<close>, nothing initialised, no call made.\<close>

definition constructed :: services where
  "constructed =
     \<lparr>bq_bigquery = None, bq_datasetId = None, bq_datasetLocation = None,
      bq_initialized = False, gm_genAI = None, gm_model = None, gm_initialized = False,
      calls = []\<rparr>"

definition record_call :: "call \<Rightarrow> services \<Rightarrow> services" where
  "record_call c st = st\<lparr>calls := calls st @ [c]\<rparr>"

section \<open>BigQueryService\<close>

definition BigQueryService_initialize :: "world \<Rightarrow> services \<Rightarrow> err + services" where
  "BigQueryService_initialize w st =
     (if bq_initialized st then Inr st
      else if \<not> truthy (BIGQUERY_PROJECT_ID (processEnv w))
        then Inl (js ''BIGQUERY_PROJECT_ID environment variable is not set'')
      else if \<not> truthy (BIGQUERY_DATASET (processEnv w))
        then Inl (js ''BIGQUERY_DATASET environment variable is not set'')
      else Inr (st\<lparr>bq_bigquery := BIGQUERY_PROJECT_ID (processEnv w),
                    bq_datasetId := BIGQUERY_DATASET (processEnv w),
                    bq_datasetLocation :=
                      (if truthy (BIGQUERY_LOCATION (processEnv w))
                       then BIGQUERY_LOCATION (processEnv w) else None),
                    bq_initialized := True\<rparr>))"

text \<open>
  \<^verbatim>\<open>_getDatasetLocation\<close> up to its \<^verbatim>\<open>await\<close>: the location held is returned at once
  (\<open>Some\<close>), or the request for the dataset metadata is sent (\<open>None\<close>). Nothing is stored
  before the answer arrives.
\<close>

definition getDatasetLocation_request :: "services \<Rightarrow> jsstring option \<times> services" where
  "getDatasetLocation_request st =
     (case bq_datasetLocation st of
        None \<Rightarrow> (None, record_call GetDatasetMetadata st)
      | Some loc \<Rightarrow>
          if loc \<noteq> [] then (Some loc, st) else (None, record_call GetDatasetMetadata st))"

text \<open>
  The rest of \<^verbatim>\<open>_getDatasetLocation\<close>, run when the answer has arrived: the reported
  location, or \<^verbatim>\<open>US\<close> when none is reported or the request failed, is stored and returned.
\<close>

definition getDatasetLocation_settle ::
  "(err + jsstring option) \<Rightarrow> services \<Rightarrow> jsstring \<times> services" where
  "getDatasetLocation_settle answer st =
     (let loc = (case answer of
                   Inl e \<Rightarrow> js ''US''
                 | Inr location \<Rightarrow> orDefault location (js ''US''))
      in (loc, st\<lparr>bq_datasetLocation := Some loc\<rparr>))"

text \<open>A call of \<^verbatim>\<open>_getDatasetLocation\<close> during which nothing else runs.\<close>

definition getDatasetLocation :: "world \<Rightarrow> services \<Rightarrow> jsstring \<times> services" where
  "getDatasetLocation w st =
     (case getDatasetLocation_request st of
        (Some loc, st1) \<Rightarrow> (loc, st1)
      | (None, st1) \<Rightarrow>
          getDatasetLocation_settle (datasetGetMetadata w (bq_bigquery st) (bq_datasetId st)) st1)"

text \<open>
  Two calls of \<^verbatim>\<open>_getDatasetLocation\<close> in flight at once, as two requests served
  concurrently make them: both run up to their \<^verbatim>\<open>await\<close> before either answer has
  arrived; then the answer of the first call arrives, then that of the second. The result
  is what each call returns with the state it leaves.
\<close>

definition overlappingLookups ::
  "(err + jsstring option) \<Rightarrow> (err + jsstring option) \<Rightarrow> services
     \<Rightarrow> (jsstring \<times> services) \<times> (jsstring \<times> services)" where
  "overlappingLookups answer1 answer2 st =
     (let (r1, st1) = getDatasetLocation_request st;
          (r2, st2) = getDatasetLocation_request st1;
          first = (case r1 of
                     Some loc \<Rightarrow> (loc, st2)
                   | None \<Rightarrow> getDatasetLocation_settle answer1 st2);
          second = (case r2 of
                      Some loc \<Rightarrow> (loc, snd first)
                    | None \<Rightarrow> getDatasetLocation_settle answer2 (snd first))
      in (first, second))"

definition executeQuery :: "world \<Rightarrow> jsstring \<Rightarrow> services \<Rightarrow> (err + jsval list) \<times> services" where
  "executeQuery w query st =
     (case BigQueryService_initialize w st of
        Inl e \<Rightarrow> (Inl e, st)
      | Inr st1 \<Rightarrow>
          (let (location, st2) = getDatasetLocation w st1;
               st3 = record_call (CreateQueryJob query location) st2
           in case queryResults w (bq_bigquery st3) query location of
                Inl e \<Rightarrow> (Inl ((js ''BigQuery execution failed: '') @ e), st3)
              | Inr rows \<Rightarrow> (Inr rows, st3)))"

definition getTableSchema :: "world \<Rightarrow> jsstring \<Rightarrow> services \<Rightarrow> (err + tableSchema) \<times> services" where
  "getTableSchema w name st =
     (case BigQueryService_initialize w st of
        Inl e \<Rightarrow> (Inl e, st)
      | Inr st1 \<Rightarrow>
          (let st2 = record_call (GetTableMetadata name) st1
           in case tableGetMetadata w (bq_bigquery st2) (bq_datasetId st2) name of
                Inl e \<Rightarrow> (Inl ((js ''Failed to get table schema: '') @ e), st2)
              | Inr metadata \<Rightarrow>
                  (Inr \<lparr>tableName = name, schema = meta_fields metadata,
                        description = orDefault (meta_description metadata) []\<rparr>, st2)))"

definition getTables :: "world \<Rightarrow> services \<Rightarrow> (err + jsstring list) \<times> services" where
  "getTables w st =
     (case BigQueryService_initialize w st of
        Inl e \<Rightarrow> (Inl e, st)
      | Inr st1 \<Rightarrow>
          (let st2 = record_call GetTables st1
           in case datasetGetTables w (bq_bigquery st2) (bq_datasetId st2) of
                Inl e \<Rightarrow> (Inl ((js ''Failed to get tables: '') @ e), st2)
              | Inr tables \<Rightarrow> (Inr tables, st2)))"

text \<open>
  \<^verbatim>\<open>tables.map(tableName => this.getTableSchema(tableName))\<close>: every call is started, in
  the order of the list. \<^verbatim>\<open>Promise.all\<close> then fulfils with all the schemas, or rejects
  with the rejection that came first in time, whose position among the rejections is
  given by the parameter \<open>earliest\<close>.
\<close>

fun mapGetTableSchema ::
  "world \<Rightarrow> jsstring list \<Rightarrow> services \<Rightarrow> (err + tableSchema) list \<times> services" where
  "mapGetTableSchema w [] st = ([], st)"
| "mapGetTableSchema w (name # names) st =
     (let (r, st1) = getTableSchema w name st;
          (rs, st2) = mapGetTableSchema w names st1
      in (r # rs, st2))"

fun rejections :: "(err + 'a) list \<Rightarrow> err list" where
  "rejections [] = []"
| "rejections (Inl e # rs) = e # rejections rs"
| "rejections (Inr x # rs) = rejections rs"

fun fulfilments :: "(err + 'a) list \<Rightarrow> 'a list" where
  "fulfilments [] = []"
| "fulfilments (Inl e # rs) = fulfilments rs"
| "fulfilments (Inr x # rs) = x # fulfilments rs"

definition promiseAll :: "(err list \<Rightarrow> nat) \<Rightarrow> (err + 'a) list \<Rightarrow> err + 'a list" where
  "promiseAll earliest rs =
     (case rejections rs of
        [] \<Rightarrow> Inr (fulfilments rs)
      | e # es \<Rightarrow> Inl ((e # es) ! (earliest (e # es) mod length (e # es))))"

definition getAllTableSchemas :: "world \<Rightarrow> services \<Rightarrow> (err + tableSchema list) \<times> services" where
  "getAllTableSchemas w st =
     (case getTables w st of
        (Inl e, st1) \<Rightarrow> (Inl ((js ''Failed to get all table schemas: '') @ e), st1)
      | (Inr tables, st1) \<Rightarrow>
          (let (rs, st2) = mapGetTableSchema w tables st1
           in case promiseAll (earliestRejection w) rs of
                Inl e \<Rightarrow> (Inl ((js ''Failed to get all table schemas: '') @ e), st2)
              | Inr schemas \<Rightarrow> (Inr schemas, st2)))"

definition getDatasetId :: "world \<Rightarrow> services \<Rightarrow> (err + jsstring option) \<times> services" where
  "getDatasetId w st =
     (case BigQueryService_initialize w st of
        Inl e \<Rightarrow> (Inl e, st)
      | Inr st1 \<Rightarrow> (Inr (bq_datasetId st1), st1))"

section \<open>GeminiService\<close>

definition GeminiService_initialize :: "world \<Rightarrow> services \<Rightarrow> err + services" where
  "GeminiService_initialize w st =
     (if gm_initialized st then Inr st
      else if \<not> truthy (GEMINI_API_KEY (processEnv w))
        then Inl (js ''GEMINI_API_KEY environment variable is not set'')
      else Inr (st\<lparr>gm_genAI := GEMINI_API_KEY (processEnv w),
                    gm_model := Some (orDefault (GEMINI_MODEL_NAME (processEnv w)) (js ''gemini-2.5-flash'')),
                    gm_initialized := True\<rparr>))"

text \<open>One line of the prompt per column.\<close>

definition fieldLine :: "field \<Rightarrow> jsstring" where
  "fieldLine f =
     (js ''  - '') @ field_name f @ (js '' ('') @ field_type f
       @ whenTruthy (field_mode f) (\<lambda>m. (js '', '') @ m) @ (js '')'')
       @ whenTruthy (field_description f) (\<lambda>d. (js '': '') @ d)
       @ (js ''\<newline>'')"

definition tableBlock :: "jsstring option \<Rightarrow> tableSchema \<Rightarrow> jsstring" where
  "tableBlock datasetId sch =
     (let qualifiedTableName =
            (case datasetId of
               None \<Rightarrow> tableName sch
             | Some d \<Rightarrow> if d \<noteq> [] then d @ (js ''.'') @ tableName sch else tableName sch)
      in (js ''\<newline>Table: '') @ qualifiedTableName @ (js ''\<newline>'')
         @ (if description sch \<noteq> [] then (js ''Description: '') @ description sch @ (js ''\<newline>'') else [])
         @ (js ''Columns:\<newline>'')
         @ concat (map fieldLine (schema sch)))"

definition schemaContext :: "tableSchema list \<Rightarrow> jsstring option \<Rightarrow> jsstring" where
  "schemaContext tableSchemas datasetId =
     (if length tableSchemas > 0
      then (js ''\<newline>\<newline>Available tables and their schemas:\<newline>'')
           @ concat (map (tableBlock datasetId) tableSchemas)
      else [])"

definition datasetInstruction :: "jsstring option \<Rightarrow> jsstring" where
  "datasetInstruction datasetId =
     whenTruthy datasetId (\<lambda>d.
       (js ''\<newline>CRITICAL: All table names MUST be qualified with the dataset name '')
       @ [0x22] @ d @ [0x22] @ (js ''. Use the format '') @ [0x22] @ d
       @ (js ''.table_name'') @ [0x22] @ (js '' for all table references.''))"

definition sqlPrompt :: "jsstring \<Rightarrow> tableSchema list \<Rightarrow> jsstring option \<Rightarrow> jsstring" where
  "sqlPrompt userQ tableSchemas datasetId =
     (js ''You are a SQL expert assistant. Convert the following natural language query into a valid BigQuery SQL query.'')
     @ (js ''\<newline>\<newline>'')
     @ schemaContext tableSchemas datasetId @ datasetInstruction datasetId
     @ (js ''\<newline>\<newline>Important guidelines:\<newline>'')
     @ (js ''1. Generate ONLY the SQL query, no explanations or markdown formatting\<newline>'')
     @ (js ''2. Use standard BigQuery SQL syntax\<newline>'')
     @ (js ''3. For exploratory queries, use appropriate aggregations (COUNT, SUM, AVG, etc.)\<newline>'')
     @ (js ''4. For predefined queries, follow the exact requirements\<newline>'')
     @ (js ''5. Always use proper table and column names from the schema provided\<newline>'')
     @ (js ''6. Include appropriate WHERE clauses when filtering is mentioned\<newline>'')
     @ (js ''7. Use LIMIT clause when appropriate to prevent large result sets\<newline>'')
     @ (js ''8. Format dates and timestamps properly if needed\<newline>'')
     @ (js ''9. ALWAYS qualify table names with the dataset name using the format: dataset.table_name\<newline>'')
     @ (js ''\<newline>User query: '') @ userQ @ (js ''\<newline>\<newline>SQL Query:'')"

text \<open>
  \<^verbatim>\<open>generateSQL\<close>: \<^verbatim>\<open>_initialize\<close> runs outside the \<^verbatim>\<open>try\<close>, so its error comes out
  as it is; an error of the model call is wrapped.
\<close>

definition generateSQL ::
  "world \<Rightarrow> jsstring \<Rightarrow> tableSchema list \<Rightarrow> jsstring option \<Rightarrow> services \<Rightarrow> (err + jsstring) \<times> services" where
  "generateSQL w userQ tableSchemas datasetId st =
     (case GeminiService_initialize w st of
        Inl e \<Rightarrow> (Inl e, st)
      | Inr st1 \<Rightarrow>
          (let prompt = sqlPrompt userQ tableSchemas datasetId;
               st2 = record_call (GenerateContent prompt) st1
           in case generateText w (gm_model st2) prompt of
                Inl e \<Rightarrow> (Inl ((js ''Failed to generate SQL: '') @ e), st2)
              | Inr text \<Rightarrow> (Inr (cleanSql text), st2)))"

definition explainPrompt :: "world \<Rightarrow> jsstring \<Rightarrow> jsstring \<Rightarrow> jsval list \<Rightarrow> jsstring" where
  "explainPrompt w userQ sql rows =
     (let resultsSummary =
            (if length rows > 0
             then (js ''Found '') @ natToString (length rows) @ (js '' result(s). Sample data: '')
                  @ jsonStringify w (take 3 rows)
             else (js ''No results found.''))
      in (js ''The user asked: '') @ [0x22] @ userQ @ [0x22] @ (js ''\<newline>'')
         @ (js ''The SQL query executed was: '') @ sql @ (js ''\<newline>'')
         @ resultsSummary @ (js ''\<newline>\<newline>'')
         @ (js ''Provide a brief, conversational explanation of the results. Keep it concise and user-friendly. Do not end with a period unless necessary.''))"

text \<open>
  \<^verbatim>\<open>explainResults\<close>: again \<^verbatim>\<open>_initialize\<close> runs outside the \<^verbatim>\<open>try\<close>; every error
  inside is caught and answered with a fixed string.
\<close>

definition explainResults ::
  "world \<Rightarrow> jsstring \<Rightarrow> jsstring \<Rightarrow> jsval list \<Rightarrow> services \<Rightarrow> (err + jsstring) \<times> services" where
  "explainResults w userQ sql rows st =
     (case GeminiService_initialize w st of
        Inl e \<Rightarrow> (Inl e, st)
      | Inr st1 \<Rightarrow>
          (let prompt = explainPrompt w userQ sql rows;
               st2 = record_call (GenerateContent prompt) st1
           in case generateText w (gm_model st2) prompt of
                Inl e \<Rightarrow> (Inr (js ''Query executed successfully.''), st2)
              | Inr text \<Rightarrow>
                  (let expl = trim text
                   in (Inr (if endsWith expl (js ''.'') then butlast expl else expl), st2))))"

section \<open>The handler of POST /api/chat\<close>

record chatResult =
  success :: bool
  userQuery :: jsstring
  sqlQuery :: jsstring
  explanation :: jsstring
  results :: "jsval list"
  resultCount :: nat

record errorBody =
  error :: jsstring
  details :: "jsstring option"
  generatedQuery :: "jsstring option"

datatype payload = ErrorBody errorBody | ChatResult chatResult

text \<open>A response is the HTTP status with the JSON payload.\<close>

type_synonym response = "nat \<times> payload"

text \<open>
  \<^verbatim>\<open>const { message } = req.body\<close>: destructuring \<^verbatim>\<open>undefined\<close> or \<^verbatim>\<open>null\<close> throws;
  an object gives the property or \<^verbatim>\<open>undefined\<close>; any other value has no such property.
\<close>

definition destructureMessage :: "world \<Rightarrow> jsval \<Rightarrow> err + jsval" where
  "destructureMessage w body =
     (case body of
        JUndefined \<Rightarrow> Inl (destructureError w body)
      | JNull \<Rightarrow> Inl (destructureError w body)
      | JObj props \<Rightarrow> Inr (case map_of props (js ''message'') of None \<Rightarrow> JUndefined | Some v \<Rightarrow> v)
      | _ \<Rightarrow> Inr JUndefined)"

text \<open>
  The negation of
  \<^verbatim>\<open>!message || typeof message !== 'string' || message.trim().length === 0\<close>,
  giving the string that passes.
\<close>

definition validMessage :: "jsval \<Rightarrow> jsstring option" where
  "validMessage message =
     (case message of
        JStr s \<Rightarrow> if s = [] \<or> length (trim s) = 0 then None else Some s
      | _ \<Rightarrow> None)"

text \<open>Explanation and response, once the query has run.\<close>

definition chat_respond :: "world \<Rightarrow> jsstring \<Rightarrow> jsstring \<Rightarrow> jsval list \<Rightarrow> services \<Rightarrow> response \<times> services" where
  "chat_respond w msg sql rows st =
     (let (r, st1) = explainResults w msg sql rows st;
          expl = (case r of
                    Inl e \<Rightarrow> (js ''Query executed successfully. Found '') @ natToString (length rows)
                               @ (js '' result(s).'')
                  | Inr x \<Rightarrow> x)
      in ((200, ChatResult \<lparr>success = True, userQuery = msg, sqlQuery = sql, explanation = expl,
                            results = rows, resultCount = length rows\<rparr>), st1))"

text \<open>The empty-query guard, the SELECT gate and the execution.\<close>

definition chat_execute :: "world \<Rightarrow> jsstring \<Rightarrow> jsstring \<Rightarrow> services \<Rightarrow> response \<times> services" where
  "chat_execute w msg sql st =
     (if sql = [] \<or> length (trim sql) = 0
      then ((500, ErrorBody \<lparr>error = (js ''Generated SQL query is empty''), details = None,
                            generatedQuery = None\<rparr>), st)
      else if \<not> includesStr (toUpperCase w (trim sql)) (js ''SELECT'')
      then ((400, ErrorBody \<lparr>error = (js ''Only SELECT queries are allowed for security reasons''),
                            details = None, generatedQuery = Some sql\<rparr>), st)
      else (case executeQuery w sql st of
              (Inl e, st1) \<Rightarrow>
                ((500, ErrorBody \<lparr>error = (js ''Failed to execute query on BigQuery''), details = Some e,
                                  generatedQuery = Some sql\<rparr>), st1)
            | (Inr rows, st1) \<Rightarrow> chat_respond w msg sql rows st1))"

text \<open>The generation of the query, with the dataset identifier of the warehouse service.\<close>

definition chat_generate :: "world \<Rightarrow> jsstring \<Rightarrow> tableSchema list \<Rightarrow> services \<Rightarrow> response \<times> services" where
  "chat_generate w msg tableSchemas st =
     (case getDatasetId w st of
        (Inl e, st1) \<Rightarrow>
          ((500, ErrorBody \<lparr>error = (js ''Failed to generate SQL query''), details = Some e,
                            generatedQuery = None\<rparr>), st1)
      | (Inr datasetId, st1) \<Rightarrow>
          (case generateSQL w msg tableSchemas datasetId st1 of
             (Inl e, st2) \<Rightarrow>
               ((500, ErrorBody \<lparr>error = (js ''Failed to generate SQL query''), details = Some e,
                                 generatedQuery = None\<rparr>), st2)
           | (Inr sql, st2) \<Rightarrow> chat_execute w msg sql st2))"

text \<open>
  The whole handler: the body is read and checked, the schemas are fetched (a failure
  leaves the list empty), and the rest follows. The outer \<^verbatim>\<open>catch\<close> answers what the
  destructuring throws.
\<close>

definition chat :: "world \<Rightarrow> jsval \<Rightarrow> services \<Rightarrow> response \<times> services" where
  "chat w body st =
     (case destructureMessage w body of
        Inl e \<Rightarrow>
          ((500, ErrorBody \<lparr>error = (js ''Internal server error''), details = Some e,
                            generatedQuery = None\<rparr>), st)
      | Inr message \<Rightarrow>
          (case validMessage message of
             None \<Rightarrow>
               ((400, ErrorBody \<lparr>error = (js ''Message is required and must be a non-empty string''),
                                 details = None, generatedQuery = None\<rparr>), st)
           | Some msg \<Rightarrow>
               (let (r, st1) = getAllTableSchemas w st;
                    tableSchemas = (case r of Inl e \<Rightarrow> [] | Inr schemas \<Rightarrow> schemas)
                in chat_generate w msg tableSchemas st1)))"

text \<open>
  A process that serves its requests one after the other, each in the world of its time:
  a handler runs to its response before the next starts. Requests whose handlers overlap
  in time are not runs of \<open>serve\<close>; for them see \<open>overlappingLookups\<close>.
\<close>

fun serve :: "(world \<times> jsval) list \<Rightarrow> services \<Rightarrow> response list \<times> services" where
  "serve [] st = ([], st)"
| "serve ((w, body) # reqs) st =
     (let (resp, st1) = chat w body st;
          (resps, st2) = serve reqs st1
      in (resp # resps, st2))"

text \<open>The calls that reach the execution capability of the warehouse.\<close>

definition isExecution :: "call \<Rightarrow> bool" where
  "isExecution c = (case c of CreateQueryJob query location \<Rightarrow> True | _ \<Rightarrow> False)"

text \<open>
  The region \<open>l\<close> is resolved in a state when the warehouse service is initialised and holds
  \<open>l\<close>, a non-empty string, as its dataset location. A call respects the region \<open>l\<close> when it
  is neither a query for the dataset metadata nor a query job in another region.
\<close>

definition regionResolved :: "jsstring \<Rightarrow> services \<Rightarrow> bool" where
  "regionResolved l st \<longleftrightarrow> bq_initialized st \<and> bq_datasetLocation st = Some l \<and> l \<noteq> []"

definition usesRegion :: "jsstring \<Rightarrow> call \<Rightarrow> bool" where
  "usesRegion l c =
     (case c of
        GetDatasetMetadata \<Rightarrow> False
      | CreateQueryJob query location \<Rightarrow> location = l
      | _ \<Rightarrow> True)"

text \<open>
  From \<open>st\<close> to \<open>st'\<close> the region \<open>l\<close> is kept: it is resolved in \<open>st'\<close>, the calls of \<open>st\<close> are
  still the first calls of \<open>st'\<close>, and every call made since respects the region.
\<close>

definition regionKept :: "jsstring \<Rightarrow> services \<Rightarrow> services \<Rightarrow> bool" where
  "regionKept l st st' \<longleftrightarrow>
     regionResolved l st'
     \<and> take (length (calls st)) (calls st') = calls st
     \<and> list_all (usesRegion l) (drop (length (calls st)) (calls st'))"

text \<open>
  What holds of the region in every state that a process reaches: while no location is
  held, no call has asked for the dataset metadata or started a query job; once a location
  is held, the service is initialised, the metadata has been asked for at most once, and
  every query job ran in the location held.
\<close>

definition jobIn :: "jsstring option \<Rightarrow> call \<Rightarrow> bool" where
  "jobIn loc c = (case c of CreateQueryJob query location \<Rightarrow> loc = Some location | _ \<Rightarrow> True)"

definition regionInvariant :: "services \<Rightarrow> bool" where
  "regionInvariant st \<longleftrightarrow>
     (if truthy (bq_datasetLocation st)
      then bq_initialized st
           \<and> length (filter (\<lambda>c. c = GetDatasetMetadata) (calls st)) \<le> 1
           \<and> list_all (jobIn (bq_datasetLocation st)) (calls st)
      else list_all (\<lambda>c. c \<noteq> GetDatasetMetadata \<and> \<not> isExecution c) (calls st))"

section \<open>Stub collaborators for concrete runs\<close>

text \<open>
  On a string of ASCII code units \<^verbatim>\<open>toUpperCase\<close> changes the letters a to z and nothing
  else. The stub worlds map with this function; the strings of their runs are ASCII.
\<close>

definition asciiUpperCase :: "jsstring \<Rightarrow> jsstring" where
  "asciiUpperCase s = map (\<lambda>c. if 0x61 \<le> c \<and> c \<le> 0x7A then c - 0x20 else c) s"

text \<open>
  A case mapping that, besides the ASCII letters, sends the sharp s (U+00DF) to SS, as
  \<^verbatim>\<open>toUpperCase\<close> does.
\<close>

definition sharpSUpperCase :: "jsstring \<Rightarrow> jsstring" where
  "sharpSUpperCase s =
     concat (map (\<lambda>c. if c = 0x00DF then [0x0053, 0x0053]
                       else if 0x61 \<le> c \<and> c \<le> 0x7A then [c - 0x20] else [c]) s)"

text \<open>
  A world whose collaborators answer with fixed values: the table list, the text of the
  model for the SQL prompt, the rows of the warehouse, and the text of the model for the
  explanation prompt. Every table has the single column \<open>id\<close>; the dataset reports the
  region \<open>EU\<close>.
\<close>

definition stubWorld ::
  "config \<Rightarrow> (err + jsstring list) \<Rightarrow> (err + jsstring) \<Rightarrow> (err + jsval list) \<Rightarrow> (err + jsstring) \<Rightarrow> world" where
  "stubWorld cfg tables sqlText rows explText =
     \<lparr>processEnv = cfg,
      datasetGetTables = (\<lambda>client ds. tables),
      tableGetMetadata = (\<lambda>client ds name.
         Inr \<lparr>meta_fields = [\<lparr>field_name = (js ''id''), field_type = (js ''INTEGER''),
                               field_mode = None, field_description = None\<rparr>],
              meta_description = None\<rparr>),
      datasetGetMetadata = (\<lambda>client ds. Inr (Some (js ''EU''))),
      queryResults = (\<lambda>client query location. rows),
      generateText = (\<lambda>model prompt.
         if prefix (js ''You are a SQL expert'') prompt then sqlText else explText),
      jsonStringify = (\<lambda>rows. (js ''[]'')),
      destructureError = (\<lambda>v. (js ''Cannot destructure property of req.body'')),
      upperCase = asciiUpperCase,
      earliestRejection = (\<lambda>es. 0)\<rparr>"

definition fullConfig :: config where
  "fullConfig =
     \<lparr>BIGQUERY_PROJECT_ID = Some (js ''project''), BIGQUERY_DATASET = Some (js ''dataset''),
      BIGQUERY_LOCATION = None, GEMINI_API_KEY = Some (js ''key''), GEMINI_MODEL_NAME = None\<rparr>"

text \<open>The body \<^verbatim>\<open>{"message": msg}\<close>.\<close>

definition request :: "jsstring \<Rightarrow> jsval" where
  "request msg = JObj [((js ''message''), JStr msg)]"

section \<open>Properties of the jsstring functions\<close>

lemma replaceMarker_Nil: "replaceMarker m [] = []"
  by (simp add: replaceMarker.simps)

lemma replaceMarker_skip:
  "\<not> prefix m (c # cs) \<Longrightarrow> replaceMarker m (c # cs) = c # replaceMarker m cs"
  by (subst replaceMarker.simps) simp

lemma replaceMarker_match:
  "m \<noteq> [] \<Longrightarrow> prefix m s \<Longrightarrow>
   replaceMarker m s = replaceMarker m (dropNewline (drop (length m) s))"
  by (subst replaceMarker.simps) simp

lemma replaceMarker_absent: "\<not> sublist m s \<Longrightarrow> replaceMarker m s = s"
proof (induction s)
  case Nil
  then show ?case by (simp add: replaceMarker.simps)
next
  case (Cons c cs)
  from Cons.prems have np: "\<not> prefix m (c # cs)" and ns: "\<not> sublist m cs"
    by (auto simp: sublist_Cons_right)
  from np have "replaceMarker m (c # cs) = c # replaceMarker m cs"
    by (subst replaceMarker.simps) simp
  with Cons.IH [OF ns] show ?case by simp
qed

text \<open>A marker of three equal code units, such as the triple backtick.\<close>

lemma triple_short_prefix:
  "\<not> prefix [t, t] s \<Longrightarrow> \<not> prefix [t, t] (replaceMarker [t, t, t] s)"
proof (cases s)
  case Nil
  then show ?thesis by (simp add: replaceMarker_Nil)
next
  case (Cons c cs)
  assume a: "\<not> prefix [t, t] s"
  show ?thesis
  proof (cases cs)
    case Nil
    have "replaceMarker [t, t, t] [c] = [c]"
      by (simp add: replaceMarker_skip replaceMarker_Nil)
    with Nil \<open>s = c # cs\<close> show ?thesis by simp
  next
    case (Cons d ds)
    with \<open>s = c # cs\<close> a have nd: "\<not> (c = t \<and> d = t)" by auto
    have 1: "replaceMarker [t, t, t] (c # d # ds) = c # replaceMarker [t, t, t] (d # ds)"
      using nd by (intro replaceMarker_skip) auto
    show ?thesis
    proof (cases "c = t")
      case True
      with nd have "d \<noteq> t" by simp
      then have "replaceMarker [t, t, t] (d # ds) = d # replaceMarker [t, t, t] ds"
        by (intro replaceMarker_skip) auto
      with 1 \<open>d \<noteq> t\<close> \<open>s = c # cs\<close> Cons show ?thesis by simp
    next
      case False
      with 1 \<open>s = c # cs\<close> Cons show ?thesis by simp
    qed
  qed
qed

lemma replaceMarker_triple_free: "\<not> sublist [t, t, t] (replaceMarker [t, t, t] s)"
proof (induction "[t, t, t]" s rule: replaceMarker.induct)
  case (1 s)
  show ?case
  proof (cases "prefix [t, t, t] s")
    case True
    then have "replaceMarker [t, t, t] s
        = replaceMarker [t, t, t] (dropNewline (drop (length [t, t, t]) s))"
      by (intro replaceMarker_match) simp_all
    with 1(1) True show ?thesis by simp
  next
    case False
    show ?thesis
    proof (cases s)
      case Nil
      then show ?thesis by (simp add: replaceMarker_Nil)
    next
      case (Cons c cs)
      from False Cons have "\<not> prefix [t, t, t] (c # cs)" by simp
      then have "replaceMarker [t, t, t] (c # cs) = c # replaceMarker [t, t, t] cs"
        by (rule replaceMarker_skip)
      with Cons have eq: "replaceMarker [t, t, t] s = c # replaceMarker [t, t, t] cs" by simp
      from False Cons have "\<not> sublist [t, t, t] (replaceMarker [t, t, t] cs)"
        using 1(2) by simp
      moreover have "\<not> prefix [t, t, t] (c # replaceMarker [t, t, t] cs)"
      proof
        assume p: "prefix [t, t, t] (c # replaceMarker [t, t, t] cs)"
        then have c: "c = t" and p2: "prefix [t, t] (replaceMarker [t, t, t] cs)" by auto
        from False Cons c have "\<not> prefix [t, t] cs" by auto
        from triple_short_prefix [OF this] p2 show False by simp
      qed
      ultimately show ?thesis using eq by (simp add: sublist_Cons_right)
    qed
  qed
qed

lemma js_fence: "js ''```'' = [0x60, 0x60, 0x60]"
  by (simp add: js_def)

lemma js_fence_sql: "js ''```sql'' = [0x60, 0x60, 0x60, 0x73, 0x71, 0x6C]"
  by (simp add: js_def)

lemma fence_in_fence_sql: "sublist (js ''```'') (js ''```sql'')"
  by (simp add: js_fence js_fence_sql sublist_Cons_right)

lemma replaceMarker_fence_free: "\<not> sublist (js ''```'') (replaceMarker (js ''```'') s)"
  by (simp only: js_fence replaceMarker_triple_free not_False_eq_True)

lemma sublist_trim: "sublist (trim s) s"
proof -
  have "suffix (dropWhile isWhiteSpace s) s" by (rule suffix_dropWhile)
  moreover have "prefix (trim s) (dropWhile isWhiteSpace s)"
    unfolding trim_def
    by (metis suffix_dropWhile suffix_to_prefix rev_rev_ident)
  ultimately show ?thesis
    by (meson prefix_imp_sublist suffix_imp_sublist sublist_order.order_trans)
qed

lemma cleanSql_fence_free: "\<not> includesStr (cleanSql text) (js ''```'')"
proof
  assume "includesStr (cleanSql text) (js ''```'')"
  then have "sublist (js ''```'') (trim (replaceMarker (js ''```'') (replaceMarker (js ''```sql'') (trim text))))"
    by (simp add: includesStr_def cleanSql_def)
  then have "sublist (js ''```'') (replaceMarker (js ''```'') (replaceMarker (js ''```sql'') (trim text)))"
    using sublist_trim sublist_order.order_trans by blast
  then show False by (simp add: replaceMarker_fence_free)
qed

lemma trim_fixed:
  "s = [] \<or> (\<not> isWhiteSpace (hd s) \<and> \<not> isWhiteSpace (last s)) \<Longrightarrow> trim s = s"
proof (cases s)
  case Nil
  then show ?thesis by (simp add: trim_def)
next
  case (Cons c cs)
  assume "s = [] \<or> (\<not> isWhiteSpace (hd s) \<and> \<not> isWhiteSpace (last s))"
  with Cons have h: "\<not> isWhiteSpace (hd s)" and l: "\<not> isWhiteSpace (last s)" by auto
  from h Cons have 1: "dropWhile isWhiteSpace s = s" by simp
  from Cons have r: "rev s = last s # rev (butlast s)"
    by (metis append_butlast_last_id list.distinct(1) rev.simps(2) rev_rev_ident rev_singleton_conv rev_append)
  have "dropWhile isWhiteSpace (rev s) = rev s"
    unfolding r using l by simp
  with 1 show ?thesis by (simp add: trim_def)
qed

lemma trim_ends:
  "trim s = [] \<or> (\<not> isWhiteSpace (hd (trim s)) \<and> \<not> isWhiteSpace (last (trim s)))"
proof (cases "trim s = []")
  case True
  then show ?thesis by simp
next
  case False
  let ?t = "dropWhile isWhiteSpace s"
  let ?u = "dropWhile isWhiteSpace (rev ?t)"
  have ts: "trim s = rev ?u" by (simp add: trim_def)
  with False have une: "?u \<noteq> []" by simp
  then have "\<not> isWhiteSpace (hd ?u)" by (rule hd_dropWhile)
  then have l: "\<not> isWhiteSpace (last (trim s))" using une ts by (simp add: last_rev)
  have tne: "?t \<noteq> []"
  proof
    assume "?t = []"
    then have "?u = []" by (simp only: rev.simps dropWhile.simps)
    with une show False by contradiction
  qed
  then have ht: "\<not> isWhiteSpace (hd ?t)" by (rule hd_dropWhile)
  have "prefix (trim s) ?t"
    unfolding trim_def by (metis suffix_dropWhile suffix_to_prefix rev_rev_ident)
  with False have "hd (trim s) = hd ?t"
    by (metis hd_append2 prefix_def)
  with ht l show ?thesis by simp
qed

lemma trim_idem: "trim (trim s) = trim s"
  by (rule trim_fixed) (rule trim_ends)

lemma cleanSql_clean:
  assumes "\<not> includesStr s (js ''```'')" and "trim s = s"
  shows "cleanSql s = s"
proof -
  from assms(1) have nf: "\<not> sublist (js ''```'') s" by (simp add: includesStr_def)
  have "sublist (js ''```'') (js ''```sql'')" by (rule fence_in_fence_sql)
  with nf have "\<not> sublist (js ''```sql'') s" using sublist_order.order_trans by blast
  then have "replaceMarker (js ''```sql'') s = s" by (rule replaceMarker_absent)
  moreover from nf have "replaceMarker (js ''```'') s = s" by (rule replaceMarker_absent)
  ultimately show ?thesis using assms(2) by (simp add: cleanSql_def)
qed

lemma cleanSql_idem: "cleanSql (cleanSql t) = cleanSql t"
  by (rule cleanSql_clean) (simp_all add: cleanSql_fence_free, simp add: cleanSql_def trim_idem)

section \<open>Initialisation of the services\<close>

lemma bq_init_cases:
  assumes "BigQueryService_initialize w st = Inr st1"
  shows "bq_initialized st1" and "calls st1 = calls st"
    and "gm_initialized st1 = gm_initialized st" and "gm_model st1 = gm_model st"
    and "bq_initialized st \<Longrightarrow> st1 = st"
  using assms by (auto simp: BigQueryService_initialize_def split: if_splits)

lemma bq_init_fail:
  "BigQueryService_initialize w st = Inl e \<Longrightarrow> \<not> bq_initialized st"
  by (auto simp: BigQueryService_initialize_def split: if_splits)

lemma gm_init_cases:
  assumes "GeminiService_initialize w st = Inr st1"
  shows "gm_initialized st1" and "calls st1 = calls st"
    and "bq_initialized st1 = bq_initialized st" and "bq_datasetLocation st1 = bq_datasetLocation st"
    and "gm_initialized st \<Longrightarrow> st1 = st"
  using assms by (auto simp: GeminiService_initialize_def split: if_splits)

lemma gm_init_done: "gm_initialized st \<Longrightarrow> GeminiService_initialize w st = Inr st"
  by (simp add: GeminiService_initialize_def)

lemma bq_init_done: "bq_initialized st \<Longrightarrow> BigQueryService_initialize w st = Inr st"
  by (simp add: BigQueryService_initialize_def)

text \<open>What an uninterrupted call of \<^verbatim>\<open>_getDatasetLocation\<close> does, in one step.\<close>

lemma getDatasetLocation_unfold:
  "getDatasetLocation w st =
     (if truthy (bq_datasetLocation st) then (orDefault (bq_datasetLocation st) [], st)
      else (let loc = (case datasetGetMetadata w (bq_bigquery st) (bq_datasetId st) of
                         Inl e \<Rightarrow> js ''US''
                       | Inr location \<Rightarrow> orDefault location (js ''US''))
            in (loc, (record_call GetDatasetMetadata st)\<lparr>bq_datasetLocation := Some loc\<rparr>)))"
  by (simp add: getDatasetLocation_def getDatasetLocation_request_def
      getDatasetLocation_settle_def truthy_def orDefault_def Let_def split: option.splits)

lemma js_US_nonempty: "js ''US'' \<noteq> []"
  by (simp add: js_def)

section \<open>Input validation\<close>




text \<open>
  C9 (amended): when the body is absent (\<^verbatim>\<open>undefined\<close>) or \<^verbatim>\<open>null\<close>, reading its message
  property throws and the handler still returns: the outer catch answers 500 with the
  error "Internal server error" and the thrown message as details, not the 400 of an
  invalid message. For every other body, object or not, the reading does not throw.
\<close>
theorem chat_unreadable_body:
  "(body = JUndefined \<or> body = JNull \<longrightarrow>
      destructureMessage w body = Inl (destructureError w body)
      \<and> chat w body st =
          ((500, ErrorBody \<lparr>error = (js ''Internal server error''),
                            details = Some (destructureError w body),
                            generatedQuery = None\<rparr>), st))
   \<and> (body \<noteq> JUndefined \<and> body \<noteq> JNull \<longrightarrow> (\<exists>message. destructureMessage w body = Inr message))"
  by (cases body) (simp_all add: chat_def destructureMessage_def)

theorem chat_unreadable_body_witness:
  "chat (stubWorld fullConfig (Inr []) (Inr (js ''SELECT 1'')) (Inr []) (Inr (js ''ok'')))
       JNull constructed =
      ((500, ErrorBody \<lparr>error = (js ''Internal server error''),
                        details = Some (js ''Cannot destructure property of req.body''),
                        generatedQuery = None\<rparr>), constructed)"
proof -
  let ?w = "stubWorld fullConfig (Inr []) (Inr (js ''SELECT 1'')) (Inr []) (Inr (js ''ok''))"
  have d: "destructureError ?w JNull = js ''Cannot destructure property of req.body''"
    by (simp add: stubWorld_def)
  from chat_unreadable_body [of JNull ?w constructed]
  have "chat ?w JNull constructed =
          ((500, ErrorBody \<lparr>error = (js ''Internal server error''),
                            details = Some (destructureError ?w JNull),
                            generatedQuery = None\<rparr>), constructed)"
    by blast
  then show ?thesis by (simp only: d)
qed

text \<open>
  C9 as stated fails for a body that is not an object but can be destructured, such as a
  string: reading its message property gives \<^verbatim>\<open>undefined\<close> without throwing, and the handler
  answers 400.
\<close>
theorem chat_primitive_body_counterexample:
  "destructureMessage (stubWorld fullConfig (Inr []) (Inr (js ''SELECT 1'')) (Inr []) (Inr (js ''ok'')))
     (JStr (js ''Count the rows'')) = Inr JUndefined
   \<and> chat (stubWorld fullConfig (Inr []) (Inr (js ''SELECT 1'')) (Inr []) (Inr (js ''ok'')))
       (JStr (js ''Count the rows'')) constructed =
      ((400, ErrorBody \<lparr>error = (js ''Message is required and must be a non-empty string''),
                      details = None, generatedQuery = None\<rparr>), constructed)"
  by (simp add: chat_def destructureMessage_def validMessage_def)

section \<open>Normalisation of the generated SQL\<close>

lemma generateSQL_result:
  assumes "generateSQL w q ts ds st = (Inr sql, st1)"
  shows "\<exists>text. sql = cleanSql text" and "gm_initialized st1"
    and "\<exists>cs. calls st1 = calls st @ cs \<and> filter isExecution cs = []"
    and "bq_initialized st1 = bq_initialized st"
    and "bq_datasetLocation st1 = bq_datasetLocation st"
  using assms
  by (auto simp: generateSQL_def Let_def record_call_def isExecution_def
      GeminiService_initialize_def split: sum.splits if_splits)

text \<open>
  C5: the clean-up of the model's text turns the fenced answer
  \<^verbatim>\<open>```sql\nSELECT 1\n```\<close> into \<^verbatim>\<open>SELECT 1\<close>, and that is the query of the job that the
  handler starts when the model gives this answer; the clean-up leaves unchanged every string that has no
  triple backtick and neither starts nor ends with whitespace; and applying it twice is
  the same as applying it once.
\<close>
theorem cleanSql_normalization:
  "cleanSql (js ''```sql\<newline>SELECT 1\<newline>```'') = (js ''SELECT 1'')
   \<and> filter isExecution
        (calls (snd (chat (stubWorld fullConfig (Inr []) (Inr (js ''```sql\<newline>SELECT 1\<newline>```''))
                             (Inr []) (Inr (js ''ok'')))
                          (request (js ''Select one'')) constructed)))
      = [CreateQueryJob (js ''SELECT 1'') (js ''EU'')]
   \<and> (\<forall>s. \<not> includesStr s (js ''```'')
          \<and> (s = [] \<or> (\<not> isWhiteSpace (hd s) \<and> \<not> isWhiteSpace (last s)))
        \<longrightarrow> cleanSql s = s)
   \<and> (\<forall>text. cleanSql (cleanSql text) = cleanSql text)"
proof (intro conjI allI impI)
  show "cleanSql (js ''```sql\<newline>SELECT 1\<newline>```'') = (js ''SELECT 1'')"
    by code_simp
next
  show "filter isExecution
        (calls (snd (chat (stubWorld fullConfig (Inr []) (Inr (js ''```sql\<newline>SELECT 1\<newline>```''))
                             (Inr []) (Inr (js ''ok'')))
                          (request (js ''Select one'')) constructed)))
      = [CreateQueryJob (js ''SELECT 1'') (js ''EU'')]"
    by code_simp
next
  fix s
  assume a: "\<not> includesStr s (js ''```'')
    \<and> (s = [] \<or> (\<not> isWhiteSpace (hd s) \<and> \<not> isWhiteSpace (last s)))"
  then have "trim s = s" by (intro trim_fixed) simp
  with a show "cleanSql s = s" by (intro cleanSql_clean) simp_all
next
  fix raw
  show "cleanSql (cleanSql raw) = cleanSql raw" by (rule cleanSql_idem)
qed

theorem cleanSql_normalization_witness:
  "\<not> includesStr (js ''SELECT 1'') (js ''```'')
   \<and> \<not> isWhiteSpace (hd (js ''SELECT 1'')) \<and> \<not> isWhiteSpace (last (js ''SELECT 1''))
   \<and> cleanSql (js ''SELECT 1'') = (js ''SELECT 1'')"
proof -
  have 1: "\<not> includesStr (js ''SELECT 1'') (js ''```'')" by code_simp
  have 2: "\<not> isWhiteSpace (hd (js ''SELECT 1'')) \<and> \<not> isWhiteSpace (last (js ''SELECT 1''))"
    by (simp add: isWhiteSpace_def js_def)
  from cleanSql_normalization have
    "\<not> includesStr (js ''SELECT 1'') (js ''```'')
       \<and> ((js ''SELECT 1'') = [] \<or> (\<not> isWhiteSpace (hd (js ''SELECT 1'')) \<and> \<not> isWhiteSpace (last (js ''SELECT 1''))))
     \<longrightarrow> cleanSql (js ''SELECT 1'') = (js ''SELECT 1'')"
    by blast
  with 1 2 show ?thesis by blast
qed

text \<open>
  C10: whatever the model answers, the string that \<^verbatim>\<open>generateSQL\<close> returns contains no
  triple backtick (and so no \<^verbatim>\<open>```sql\<close> marker either), also when the markers stood in the
  middle of the text.
\<close>
theorem generateSQL_fence_free:
  assumes "generateSQL w q ts ds st = (Inr sql, st1)"
  shows "\<not> includesStr sql (js ''```'') \<and> \<not> includesStr sql (js ''```sql'')"
proof -
  from generateSQL_result(1) [OF assms] obtain raw where sql: "sql = cleanSql raw" ..
  then have 1: "\<not> includesStr sql (js ''```'')" by (simp add: cleanSql_fence_free)
  have "sublist (js ''```'') (js ''```sql'')" by (rule fence_in_fence_sql)
  with 1 have "\<not> includesStr sql (js ''```sql'')"
    unfolding includesStr_def using sublist_order.order_trans by blast
  with 1 show ?thesis by simp
qed

theorem generateSQL_fence_free_witness:
  "fst (generateSQL (stubWorld fullConfig (Inr []) (Inr (js ''SELECT `a```sql` FROM ```\<newline>t'')) (Inr []) (Inr (js ''ok'')))
      (js ''list a'') [] (Some (js ''dataset'')) constructed) = Inr (js ''SELECT `a` FROM t'')
   \<and> \<not> includesStr (js ''SELECT `a` FROM t'') (js ''```'')"
proof -
  let ?w = "stubWorld fullConfig (Inr []) (Inr (js ''SELECT `a```sql` FROM ```\<newline>t'')) (Inr []) (Inr (js ''ok''))"
  have 1: "fst (generateSQL ?w (js ''list a'') [] (Some (js ''dataset'')) constructed) = Inr (js ''SELECT `a` FROM t'')"
    by code_simp
  then have "generateSQL ?w (js ''list a'') [] (Some (js ''dataset'')) constructed
     = (Inr (js ''SELECT `a` FROM t''), snd (generateSQL ?w (js ''list a'') [] (Some (js ''dataset'')) constructed))"
    by (metis prod.collapse)
  from generateSQL_fence_free [OF this] 1 show ?thesis by blast
qed

section \<open>The pipeline after validation\<close>

lemma includes_select_nonempty:
  assumes "includesStr (toUpperCase w (trim sql)) (js ''SELECT'')"
  shows "sql \<noteq> []" and "length (trim sql) \<noteq> 0"
proof -
  from assms have "toUpperCase w (trim sql) \<noteq> []"
    by (auto simp: includesStr_def js_def)
  then show "length (trim sql) \<noteq> 0" by (auto simp: toUpperCase_def)
  then show "sql \<noteq> []" by (auto simp: trim_def)
qed

lemma executeQuery_gemini:
  assumes "executeQuery w q st = (r, st1)"
  shows "gm_initialized st1 = gm_initialized st" and "gm_model st1 = gm_model st"
  using assms
  by (auto simp: executeQuery_def getDatasetLocation_unfold Let_def
      record_call_def BigQueryService_initialize_def split: sum.splits if_splits option.splits)

lemma chat_pipeline:
  assumes "destructureMessage w body = Inr message" and "validMessage message = Some msg"
    and "getAllTableSchemas w st = (r, st1)"
  shows "chat w body st =
    chat_generate w msg (case r of Inl e \<Rightarrow> [] | Inr schemas \<Rightarrow> schemas) st1"
  using assms by (simp add: chat_def)

lemma chat_generate_ok:
  assumes "getDatasetId w st1 = (Inr ds, st2)"
    and "generateSQL w msg ts ds st2 = (Inr sql, st3)"
  shows "chat_generate w msg ts st1 = chat_execute w msg sql st3"
  using assms by (simp add: chat_generate_def)

lemma fst_collapse: "fst p = a \<Longrightarrow> p = (a, snd p)"
  by auto

subsection \<open>The successful request\<close>

text \<open>
  C8: when the message is valid, the generation succeeds, the generated SQL passes the
  SELECT gate and the execution succeeds, the response is 200 with success true, userQuery
  the request message, sqlQuery the normalised output of the generator, results the rows
  returned by the execution, and resultCount their number.
\<close>
theorem chat_success:
  assumes "destructureMessage w body = Inr message" and "validMessage message = Some msg"
    and "getAllTableSchemas w st = (r, st1)"
    and "getDatasetId w st1 = (Inr ds, st2)"
    and "generateSQL w msg (case r of Inl e \<Rightarrow> [] | Inr schemas \<Rightarrow> schemas) ds st2 = (Inr sql, st3)"
    and "includesStr (toUpperCase w (trim sql)) (js ''SELECT'')"
    and "executeQuery w sql st3 = (Inr rows, st4)"
  shows "\<exists>expl st5. chat w body st =
    ((200, ChatResult \<lparr>success = True, userQuery = msg, sqlQuery = sql, explanation = expl,
                       results = rows, resultCount = length rows\<rparr>), st5)"
proof -
  have "chat w body st = chat_execute w msg sql st3"
    using assms(1-5) by (simp add: chat_pipeline chat_generate_ok)
  also have "\<dots> = chat_respond w msg sql rows st4"
    using includes_select_nonempty [OF assms(6)] assms(6,7) by (simp add: chat_execute_def)
  finally show ?thesis
    by (simp add: chat_respond_def Let_def split: prod.splits)
qed

theorem chat_success_witness:
  "\<exists>expl st5.
     chat (stubWorld fullConfig (Inr [(js ''orders'')])
             (Inr (js ''SELECT COUNT(*) AS cnt FROM dataset.orders''))
             (Inr [JObj [((js ''cnt''), JNum 42)]]) (Inr (js ''There are 42 rows.'')))
          (request (js ''Count the rows in table orders'')) constructed =
     ((200, ChatResult \<lparr>success = True, userQuery = (js ''Count the rows in table orders''),
                        sqlQuery = (js ''SELECT COUNT(*) AS cnt FROM dataset.orders''),
                        explanation = expl, results = [JObj [((js ''cnt''), JNum 42)]],
                        resultCount = 1\<rparr>), st5)"
proof -
  let ?w = "stubWorld fullConfig (Inr [(js ''orders'')])
             (Inr (js ''SELECT COUNT(*) AS cnt FROM dataset.orders''))
             (Inr [JObj [((js ''cnt''), JNum 42)]]) (Inr (js ''There are 42 rows.''))"
  let ?msg = "(js ''Count the rows in table orders'')"
  let ?sql = "(js ''SELECT COUNT(*) AS cnt FROM dataset.orders'')"
  let ?a = "getAllTableSchemas ?w constructed"
  let ?b = "getDatasetId ?w (snd ?a)"
  let ?c = "generateSQL ?w ?msg (case fst ?a of Inl e \<Rightarrow> [] | Inr schemas \<Rightarrow> schemas)
              (Some (js ''dataset'')) (snd ?b)"
  let ?d = "executeQuery ?w ?sql (snd ?c)"
  have h1: "destructureMessage ?w (request ?msg) = Inr (JStr ?msg)"
    by (simp add: destructureMessage_def request_def)
  have h2: "validMessage (JStr ?msg) = Some ?msg" by code_simp
  have h3: "?a = (fst ?a, snd ?a)" by simp
  have "fst ?b = Inr (Some (js ''dataset''))" by code_simp
  then have h4: "?b = (Inr (Some (js ''dataset'')), snd ?b)" by (rule fst_collapse)
  have "fst ?c = Inr ?sql" by code_simp
  then have h5: "?c = (Inr ?sql, snd ?c)" by (rule fst_collapse)
  have h6: "includesStr (toUpperCase ?w (trim ?sql)) (js ''SELECT'')" by code_simp
  have "fst ?d = Inr [JObj [((js ''cnt''), JNum 42)]]" by code_simp
  then have h7: "?d = (Inr [JObj [((js ''cnt''), JNum 42)]], snd ?d)" by (rule fst_collapse)
  from chat_success [OF h1 h2 h3 h4 h5 h6 h7] show ?thesis by simp
qed

subsection \<open>Calls that reach the execution capability\<close>

lemma getTableSchema_exec:
  "getTableSchema w n st = (r, st1) \<Longrightarrow> filter isExecution (calls st1) = filter isExecution (calls st)"
  by (auto simp: getTableSchema_def Let_def record_call_def isExecution_def
      BigQueryService_initialize_def split: sum.splits if_splits)

lemma mapGetTableSchema_exec:
  "mapGetTableSchema w ns st = (rs, st1) \<Longrightarrow> filter isExecution (calls st1) = filter isExecution (calls st)"
proof (induction ns arbitrary: st rs st1)
  case Nil
  then show ?case by simp
next
  case (Cons n ns)
  then show ?case
    by (auto simp: Let_def split: prod.splits dest!: getTableSchema_exec)
qed

lemma getTables_exec:
  "getTables w st = (r, st1) \<Longrightarrow> filter isExecution (calls st1) = filter isExecution (calls st)"
  by (auto simp: getTables_def Let_def record_call_def isExecution_def
      BigQueryService_initialize_def split: sum.splits if_splits)

lemma getAllTableSchemas_exec:
  assumes "getAllTableSchemas w st = (r, st1)"
  shows "filter isExecution (calls st1) = filter isExecution (calls st)"
  using assms
  by (auto simp: getAllTableSchemas_def Let_def split: prod.splits sum.splits
      dest!: getTables_exec mapGetTableSchema_exec)

lemma getDatasetId_calls:
  "getDatasetId w st = (r, st1) \<Longrightarrow> calls st1 = calls st"
  by (auto simp: getDatasetId_def BigQueryService_initialize_def split: sum.splits if_splits)

lemma generateSQL_exec:
  "generateSQL w q ts ds st = (r, st1) \<Longrightarrow> filter isExecution (calls st1) = filter isExecution (calls st)"
  by (auto simp: generateSQL_def Let_def record_call_def isExecution_def
      GeminiService_initialize_def split: sum.splits if_splits)

text \<open>
  C1 (amended): for every request whose generated SQL is not empty and, trimmed and
  uppercased, does not contain SELECT, the handler answers 400 with the error
  "Only SELECT queries are allowed for security reasons" and the rejected SQL as
  generatedQuery, and no call to the execution capability is added.
\<close>

theorem chat_rejects_non_select:
  assumes "destructureMessage w body = Inr message" and "validMessage message = Some msg"
    and "getAllTableSchemas w st = (r, st1)"
    and "getDatasetId w st1 = (Inr ds, st2)"
    and "generateSQL w msg (case r of Inl e \<Rightarrow> [] | Inr schemas \<Rightarrow> schemas) ds st2 = (Inr sql, st3)"
    and "sql \<noteq> []"
    and "\<not> includesStr (toUpperCase w (trim sql)) (js ''SELECT'')"
  shows "chat w body st =
      ((400, ErrorBody \<lparr>error = (js ''Only SELECT queries are allowed for security reasons''),
                        details = None, generatedQuery = Some sql\<rparr>), st3)
    \<and> filter isExecution (calls st3) = filter isExecution (calls st)"
proof -
  from generateSQL_result(1) [OF assms(5)] obtain raw where "sql = cleanSql raw" ..
  then have "trim sql = sql" by (simp add: cleanSql_def trim_idem)
  with assms(6) have ne: "length (trim sql) \<noteq> 0" by simp
  have "chat w body st = chat_execute w msg sql st3"
    using assms(1-5) by (simp add: chat_pipeline chat_generate_ok)
  with ne assms(6,7) have 1: "chat w body st =
      ((400, ErrorBody \<lparr>error = (js ''Only SELECT queries are allowed for security reasons''),
                        details = None, generatedQuery = Some sql\<rparr>), st3)"
    by (simp add: chat_execute_def)
  have "filter isExecution (calls st3) = filter isExecution (calls st)"
    using getAllTableSchemas_exec [OF assms(3)] getDatasetId_calls [OF assms(4)]
      generateSQL_exec [OF assms(5)] by simp
  with 1 show ?thesis by simp
qed

theorem chat_rejects_non_select_witness:
  "fst (chat (stubWorld fullConfig (Inr [(js ''x'')]) (Inr (js ''DROP TABLE x'')) (Inr []) (Inr (js ''ok'')))
          (request (js ''Remove table x'')) constructed) =
     (400, ErrorBody \<lparr>error = (js ''Only SELECT queries are allowed for security reasons''),
                      details = None, generatedQuery = Some (js ''DROP TABLE x'')\<rparr>)
   \<and> filter isExecution
        (calls (snd (chat (stubWorld fullConfig (Inr [(js ''x'')]) (Inr (js ''DROP TABLE x'')) (Inr []) (Inr (js ''ok'')))
          (request (js ''Remove table x'')) constructed))) = []"
proof -
  let ?w = "stubWorld fullConfig (Inr [(js ''x'')]) (Inr (js ''DROP TABLE x'')) (Inr []) (Inr (js ''ok''))"
  let ?msg = "(js ''Remove table x'')"
  let ?sql = "(js ''DROP TABLE x'')"
  let ?a = "getAllTableSchemas ?w constructed"
  let ?b = "getDatasetId ?w (snd ?a)"
  let ?c = "generateSQL ?w ?msg (case fst ?a of Inl e \<Rightarrow> [] | Inr schemas \<Rightarrow> schemas)
              (Some (js ''dataset'')) (snd ?b)"
  have h1: "destructureMessage ?w (request ?msg) = Inr (JStr ?msg)"
    by (simp add: destructureMessage_def request_def)
  have h2: "validMessage (JStr ?msg) = Some ?msg" by code_simp
  have h3: "?a = (fst ?a, snd ?a)" by simp
  have "fst ?b = Inr (Some (js ''dataset''))" by code_simp
  then have h4: "?b = (Inr (Some (js ''dataset'')), snd ?b)" by (rule fst_collapse)
  have "fst ?c = Inr ?sql" by code_simp
  then have h5: "?c = (Inr ?sql, snd ?c)" by (rule fst_collapse)
  have h6: "?sql \<noteq> []" by (simp add: js_def)
  have h7: "\<not> includesStr (toUpperCase ?w (trim ?sql)) (js ''SELECT'')" by code_simp
  from chat_rejects_non_select [OF h1 h2 h3 h4 h5 h6 h7] show ?thesis
    by (simp add: constructed_def)
qed

text \<open>
  C1 as stated fails for an empty generated SQL: it has no SELECT either, but the
  empty-query guard answers it first, with 500.
\<close>

theorem chat_empty_sql_counterexample:
  "cleanSql (js ''```sql\<newline>```'') = []
   \<and> \<not> includesStr
         (toUpperCase (stubWorld fullConfig (Inr [(js ''x'')]) (Inr (js ''```sql\<newline>```'')) (Inr [])
                        (Inr (js ''ok'')))
            (trim (cleanSql (js ''```sql\<newline>```''))))
         (js ''SELECT'')
   \<and> fst (chat (stubWorld fullConfig (Inr [(js ''x'')]) (Inr (js ''```sql\<newline>```'')) (Inr []) (Inr (js ''ok'')))
          (request (js ''Remove table x'')) constructed) =
       (500, ErrorBody \<lparr>error = (js ''Generated SQL query is empty''), details = None,
                        generatedQuery = None\<rparr>)"
  by code_simp

subsection \<open>Failure of the explanation\<close>

text \<open>
  Once the generative service is initialised, \<^verbatim>\<open>explainResults\<close> never rejects: every
  failure of the model call is answered by its own catch. The catch of the handler around
  the call, which builds the string with the result count, is therefore never entered
  after a successful \<^verbatim>\<open>generateSQL\<close>.
\<close>

lemma explainResults_never_rejects:
  assumes "gm_initialized st"
  shows "\<exists>x st1. explainResults w m q rows st = (Inr x, st1)"
  using assms
  by (simp add: explainResults_def gm_init_done Let_def split: sum.splits)

text \<open>
  When the model call inside \<^verbatim>\<open>explainResults\<close> raises, the request still succeeds with
  200, and the explanation is the fixed string of the catch of \<^verbatim>\<open>explainResults\<close>.
\<close>

lemma explanation_failure_response:
  assumes "destructureMessage w body = Inr message" and "validMessage message = Some msg"
    and "getAllTableSchemas w st = (r, st1)"
    and "getDatasetId w st1 = (Inr ds, st2)"
    and "generateSQL w msg (case r of Inl e \<Rightarrow> [] | Inr schemas \<Rightarrow> schemas) ds st2 = (Inr sql, st3)"
    and "includesStr (toUpperCase w (trim sql)) (js ''SELECT'')"
    and "executeQuery w sql st3 = (Inr rows, st4)"
    and "generateText w (gm_model st4) (explainPrompt w msg sql rows) = Inl e"
  shows "chat w body st =
    ((200, ChatResult \<lparr>success = True, userQuery = msg, sqlQuery = sql,
                       explanation = (js ''Query executed successfully.''),
                       results = rows, resultCount = length rows\<rparr>),
     record_call (GenerateContent (explainPrompt w msg sql rows)) st4)"
proof -
  have "chat w body st = chat_execute w msg sql st3"
    using assms(1-5) by (simp add: chat_pipeline chat_generate_ok)
  also have "\<dots> = chat_respond w msg sql rows st4"
    using includes_select_nonempty [OF assms(6)] assms(6,7) by (simp add: chat_execute_def)
  finally have 1: "chat w body st = chat_respond w msg sql rows st4" .
  have "gm_initialized st4"
    using generateSQL_result(2) [OF assms(5)] executeQuery_gemini(1) [OF assms(7)] by simp
  then have "GeminiService_initialize w st4 = Inr st4" by (rule gm_init_done)
  with assms(8) have "explainResults w msg sql rows st4 =
      (Inr (js ''Query executed successfully.''),
       record_call (GenerateContent (explainPrompt w msg sql rows)) st4)"
    by (simp add: explainResults_def Let_def record_call_def)
  with 1 show ?thesis by (simp add: chat_respond_def)
qed

text \<open>
  C2: the code departs from the claim. With two result rows and a failing explanation
  call the response is 200, but its explanation is "Query executed successfully.", not the
  fallback of the handler with the result count,
  "Query executed successfully. Found 2 result(s).".
\<close>
theorem chat_explanation_count_missing:
  "generateText (stubWorld fullConfig (Inr [(js ''orders'')]) (Inr (js ''SELECT id FROM dataset.orders''))
        (Inr [JObj [((js ''id''), JNum 1)], JObj [((js ''id''), JNum 2)]]) (Inl (js ''quota exceeded'')))
      (Some (js ''gemini-2.5-flash''))
      (explainPrompt (stubWorld fullConfig (Inr [(js ''orders'')]) (Inr (js ''SELECT id FROM dataset.orders''))
        (Inr [JObj [((js ''id''), JNum 1)], JObj [((js ''id''), JNum 2)]]) (Inl (js ''quota exceeded'')))
        (js ''List the order ids'') (js ''SELECT id FROM dataset.orders'')
        [JObj [((js ''id''), JNum 1)], JObj [((js ''id''), JNum 2)]]) = Inl (js ''quota exceeded'')
   \<and> fst (chat (stubWorld fullConfig (Inr [(js ''orders'')]) (Inr (js ''SELECT id FROM dataset.orders''))
        (Inr [JObj [((js ''id''), JNum 1)], JObj [((js ''id''), JNum 2)]]) (Inl (js ''quota exceeded'')))
        (request (js ''List the order ids'')) constructed) =
       (200, ChatResult \<lparr>success = True, userQuery = (js ''List the order ids''),
                         sqlQuery = (js ''SELECT id FROM dataset.orders''),
                         explanation = (js ''Query executed successfully.''),
                         results = [JObj [((js ''id''), JNum 1)], JObj [((js ''id''), JNum 2)]],
                         resultCount = 2\<rparr>)
   \<and> js ''Query executed successfully. Found '' @ natToString 2 @ js '' result(s).''
       = js ''Query executed successfully. Found 2 result(s).''
   \<and> js ''Query executed successfully.'' \<noteq> js ''Query executed successfully. Found 2 result(s).''
   \<and> \<not> includesStr (js ''Query executed successfully.'') (natToString 2)"
  by code_simp

section \<open>Failure of the schema fetch\<close>

lemma bq_init_configured:
  "bq_initialized st \<or> (truthy (BIGQUERY_PROJECT_ID (processEnv w)) \<and> truthy (BIGQUERY_DATASET (processEnv w)))
   \<Longrightarrow> \<exists>st1. BigQueryService_initialize w st = Inr st1"
  by (auto simp: BigQueryService_initialize_def)

lemma gm_init_configured:
  "gm_initialized st \<or> truthy (GEMINI_API_KEY (processEnv w))
   \<Longrightarrow> \<exists>st1. GeminiService_initialize w st = Inr st1"
  by (auto simp: GeminiService_initialize_def)

lemma getTableSchema_frame:
  assumes "getTableSchema w n st = (r, st1)"
  shows "gm_initialized st1 = gm_initialized st \<and> gm_model st1 = gm_model st
    \<and> (bq_initialized st \<longrightarrow> bq_initialized st1)"
  using assms
  by (auto simp: getTableSchema_def Let_def record_call_def
      BigQueryService_initialize_def split: sum.splits if_splits)

lemma mapGetTableSchema_frame:
  "mapGetTableSchema w ns st = (rs, st1) \<Longrightarrow>
   gm_initialized st1 = gm_initialized st \<and> gm_model st1 = gm_model st
    \<and> (bq_initialized st \<longrightarrow> bq_initialized st1)"
proof (induction ns arbitrary: st rs st1)
  case Nil
  then show ?case by simp
next
  case (Cons n ns)
  obtain r sa where 1: "getTableSchema w n st = (r, sa)" by (cases "getTableSchema w n st")
  obtain rs' sb where 2: "mapGetTableSchema w ns sa = (rs', sb)"
    by (cases "mapGetTableSchema w ns sa")
  from Cons.prems 1 2 have "st1 = sb" by simp
  with getTableSchema_frame [OF 1] Cons.IH [OF 2] show ?case by simp
qed

lemma getTables_frame:
  assumes "getTables w st = (r, st1)"
  shows "gm_initialized st1 = gm_initialized st \<and> gm_model st1 = gm_model st
    \<and> (bq_initialized st \<or> (truthy (BIGQUERY_PROJECT_ID (processEnv w)) \<and> truthy (BIGQUERY_DATASET (processEnv w)))
        \<longrightarrow> bq_initialized st1)"
  using assms
  by (auto simp: getTables_def Let_def record_call_def
      BigQueryService_initialize_def split: sum.splits if_splits)

lemma getAllTableSchemas_frame:
  assumes "getAllTableSchemas w st = (r, st1)"
  shows "gm_initialized st1 = gm_initialized st \<and> gm_model st1 = gm_model st
    \<and> (bq_initialized st \<or> (truthy (BIGQUERY_PROJECT_ID (processEnv w)) \<and> truthy (BIGQUERY_DATASET (processEnv w)))
        \<longrightarrow> bq_initialized st1)"
proof -
  obtain r0 sa where 1: "getTables w st = (r0, sa)" by (cases "getTables w st")
  show ?thesis
  proof (cases r0)
    case (Inl e)
    with assms 1 have "st1 = sa" by (simp add: getAllTableSchemas_def)
    with getTables_frame [OF 1] show ?thesis by simp
  next
    case (Inr tables)
    obtain rs sb where 2: "mapGetTableSchema w tables sa = (rs, sb)"
      by (cases "mapGetTableSchema w tables sa")
    with assms 1 Inr have "st1 = sb"
      by (auto simp: getAllTableSchemas_def split: sum.splits)
    with getTables_frame [OF 1] mapGetTableSchema_frame [OF 2] show ?thesis by simp
  qed
qed

lemma getAllTableSchemas_unconfigured:
  assumes "BigQueryService_initialize w st = Inl e"
  shows "getAllTableSchemas w st = (Inl ((js ''Failed to get all table schemas: '') @ e), st)"
  using assms by (simp add: getAllTableSchemas_def getTables_def)

lemma executeQuery_calls:
  "executeQuery w q st = (r, st1) \<Longrightarrow> \<exists>cs. calls st1 = calls st @ cs"
  by (auto simp: executeQuery_def getDatasetLocation_unfold Let_def
      record_call_def BigQueryService_initialize_def split: sum.splits if_splits option.splits)

lemma explainResults_calls:
  "explainResults w m q rows st = (r, st1) \<Longrightarrow> \<exists>cs. calls st1 = calls st @ cs"
  by (auto simp: explainResults_def Let_def record_call_def GeminiService_initialize_def
      split: sum.splits if_splits)

lemma chat_execute_calls: "\<exists>cs. calls (snd (chat_execute w msg sql st)) = calls st @ cs"
proof -
  obtain r sa where 1: "executeQuery w sql st = (r, sa)" by (cases "executeQuery w sql st")
  from executeQuery_calls [OF 1] obtain cs where cs: "calls sa = calls st @ cs" ..
  show ?thesis
  proof (cases r)
    case (Inl e)
    with 1 cs show ?thesis by (auto simp: chat_execute_def)
  next
    case (Inr rows)
    obtain r2 sb where 2: "explainResults w msg sql rows sa = (r2, sb)"
      by (cases "explainResults w msg sql rows sa")
    from explainResults_calls [OF 2] obtain cs2 where "calls sb = calls sa @ cs2" ..
    with 1 2 cs Inr show ?thesis by (auto simp: chat_execute_def chat_respond_def)
  qed
qed

text \<open>
  C4 (amended): if \<^verbatim>\<open>getAllTableSchemas\<close> raises while the warehouse service is initialised
  or its project and dataset identifiers are configured, the handler does not abort: it
  calls \<^verbatim>\<open>generateSQL\<close> with the empty schema list and the dataset identifier, and the
  request goes on through the remaining states; when the generative service can be
  initialised, the model is asked with the prompt built from the empty schema list.
\<close>
theorem chat_schema_failure:
  assumes "destructureMessage w body = Inr message" and "validMessage message = Some msg"
    and "getAllTableSchemas w st = (Inl e, st1)"
    and "bq_initialized st1
       \<or> (truthy (BIGQUERY_PROJECT_ID (processEnv w)) \<and> truthy (BIGQUERY_DATASET (processEnv w)))"
  shows "\<exists>ds st2. getDatasetId w st1 = (Inr ds, st2)
     \<and> chat w body st =
        (case generateSQL w msg [] ds st2 of
           (Inl e', st3) \<Rightarrow>
             ((500, ErrorBody \<lparr>error = (js ''Failed to generate SQL query''), details = Some e',
                               generatedQuery = None\<rparr>), st3)
         | (Inr sql, st3) \<Rightarrow> chat_execute w msg sql st3)
     \<and> (gm_initialized st2 \<or> truthy (GEMINI_API_KEY (processEnv w))
          \<longrightarrow> GenerateContent (sqlPrompt msg [] ds) \<in> set (calls (snd (chat w body st))))"
proof -
  from bq_init_configured [OF assms(4)] obtain st2
    where i: "BigQueryService_initialize w st1 = Inr st2" ..
  then have d: "getDatasetId w st1 = (Inr (bq_datasetId st2), st2)"
    by (simp add: getDatasetId_def)
  let ?ds = "bq_datasetId st2"
  have c: "chat w body st = chat_generate w msg [] st1"
    using chat_pipeline [OF assms(1-3)] by simp
  obtain r3 st3 where g: "generateSQL w msg [] ?ds st2 = (r3, st3)"
    by (cases "generateSQL w msg [] ?ds st2")
  have eq: "chat w body st =
        (case generateSQL w msg [] ?ds st2 of
           (Inl e', st3) \<Rightarrow>
             ((500, ErrorBody \<lparr>error = (js ''Failed to generate SQL query''), details = Some e',
                               generatedQuery = None\<rparr>), st3)
         | (Inr sql, st3) \<Rightarrow> chat_execute w msg sql st3)"
    using c d by (simp add: chat_generate_def split: prod.splits sum.splits)
  have tr: "GenerateContent (sqlPrompt msg [] ?ds) \<in> set (calls (snd (chat w body st)))"
    if k: "gm_initialized st2 \<or> truthy (GEMINI_API_KEY (processEnv w))"
  proof -
    from gm_init_configured [OF k] obtain sg
      where sg: "GeminiService_initialize w st2 = Inr sg" ..
    with g have 3: "GenerateContent (sqlPrompt msg [] ?ds) \<in> set (calls st3)"
      by (auto simp: generateSQL_def Let_def record_call_def split: sum.splits)
    show ?thesis
    proof (cases r3)
      case (Inl e')
      with eq g 3 show ?thesis by simp
    next
      case (Inr sql)
      with eq g have "chat w body st = chat_execute w msg sql st3" by simp
      moreover from chat_execute_calls obtain cs
        where "calls (snd (chat_execute w msg sql st3)) = calls st3 @ cs" ..
      ultimately show ?thesis using 3 by simp
    qed
  qed
  from d eq tr show ?thesis by blast
qed

theorem chat_schema_failure_witness:
  "GenerateContent (sqlPrompt (js ''Count the rows'') [] (Some (js ''dataset'')))
     \<in> set (calls (snd (chat (stubWorld fullConfig (Inl (js ''metadata unavailable'')) (Inr (js ''SELECT 1''))
                               (Inr [JObj [((js ''f0_''), JNum 1)]]) (Inr (js ''One row.'')))
                          (request (js ''Count the rows'')) constructed)))"
proof -
  let ?w = "stubWorld fullConfig (Inl (js ''metadata unavailable'')) (Inr (js ''SELECT 1''))
              (Inr [JObj [((js ''f0_''), JNum 1)]]) (Inr (js ''One row.''))"
  let ?msg = "(js ''Count the rows'')"
  let ?a = "getAllTableSchemas ?w constructed"
  have h1: "destructureMessage ?w (request ?msg) = Inr (JStr ?msg)"
    by (simp add: destructureMessage_def request_def)
  have h2: "validMessage (JStr ?msg) = Some ?msg" by code_simp
  have "fst ?a = Inl (js ''Failed to get all table schemas: Failed to get tables: metadata unavailable'')"
    by code_simp
  then have h3: "?a = (Inl (js ''Failed to get all table schemas: Failed to get tables: metadata unavailable''), snd ?a)"
    by (rule fst_collapse)
  have "bq_initialized (snd ?a)" by code_simp
  then have h4: "bq_initialized (snd ?a)
       \<or> (truthy (BIGQUERY_PROJECT_ID (processEnv ?w)) \<and> truthy (BIGQUERY_DATASET (processEnv ?w)))"
    by simp
  have k: "truthy (GEMINI_API_KEY (processEnv ?w))" by code_simp
  from chat_schema_failure [OF h1 h2 h3 h4] obtain ds st2
    where d: "getDatasetId ?w (snd ?a) = (Inr ds, st2)"
      and t: "gm_initialized st2 \<or> truthy (GEMINI_API_KEY (processEnv ?w))
          \<longrightarrow> GenerateContent (sqlPrompt ?msg [] ds) \<in> set (calls (snd (chat ?w (request ?msg) constructed)))"
    by blast
  have "fst (getDatasetId ?w (snd ?a)) = Inr (Some (js ''dataset''))" by code_simp
  with d have "ds = Some (js ''dataset'')" by simp
  with t k show ?thesis by simp
qed

text \<open>
  C4 as stated fails when the schema fetch raises because the project identifier is not
  configured: \<^verbatim>\<open>getDatasetId\<close> then raises too, inside the generation step, and the handler
  answers 500 without calling \<^verbatim>\<open>generateSQL\<close> (the generative service stays uninitialised
  and no call is made).
\<close>

theorem chat_schema_failure_counterexample:
  "fst (getAllTableSchemas
          (stubWorld (fullConfig\<lparr>BIGQUERY_PROJECT_ID := None\<rparr>) (Inr [(js ''orders'')])
             (Inr (js ''SELECT 1'')) (Inr []) (Inr (js ''ok'')))
          constructed)
     = Inl (js ''Failed to get all table schemas: BIGQUERY_PROJECT_ID environment variable is not set'')
   \<and> chat (stubWorld (fullConfig\<lparr>BIGQUERY_PROJECT_ID := None\<rparr>) (Inr [(js ''orders'')])
             (Inr (js ''SELECT 1'')) (Inr []) (Inr (js ''ok'')))
          (request (js ''Count the rows'')) constructed
     = ((500, ErrorBody \<lparr>error = (js ''Failed to generate SQL query''),
                         details = Some (js ''BIGQUERY_PROJECT_ID environment variable is not set''),
                         generatedQuery = None\<rparr>), constructed)
   \<and> \<not> gm_initialized constructed \<and> calls constructed = []"
  by code_simp

section \<open>Missing configuration\<close>

text \<open>
  C6 (amended): the services read their configuration on first use inside a request.
  For a request with a valid message, a missing project identifier or dataset identifier
  (warehouse service not yet initialised) or a missing API key (generative service not yet
  initialised) makes the handler answer 500 with the error "Failed to generate SQL query"
  and, as details, the message naming the missing environment variable; the only calls
  made are those of the schema fetch.
\<close>
theorem chat_missing_configuration:
  assumes "destructureMessage w body = Inr message" and "validMessage message = Some msg"
  shows "(\<not> bq_initialized st \<and> \<not> truthy (BIGQUERY_PROJECT_ID (processEnv w)) \<longrightarrow>
          chat w body st =
            ((500, ErrorBody \<lparr>error = (js ''Failed to generate SQL query''),
                 details = Some (js ''BIGQUERY_PROJECT_ID environment variable is not set''),
                 generatedQuery = None\<rparr>), st))
       \<and> (\<not> bq_initialized st \<and> truthy (BIGQUERY_PROJECT_ID (processEnv w))
            \<and> \<not> truthy (BIGQUERY_DATASET (processEnv w)) \<longrightarrow>
          chat w body st =
            ((500, ErrorBody \<lparr>error = (js ''Failed to generate SQL query''),
                 details = Some (js ''BIGQUERY_DATASET environment variable is not set''),
                 generatedQuery = None\<rparr>), st))
       \<and> ((bq_initialized st
             \<or> (truthy (BIGQUERY_PROJECT_ID (processEnv w)) \<and> truthy (BIGQUERY_DATASET (processEnv w))))
            \<and> \<not> gm_initialized st \<and> \<not> truthy (GEMINI_API_KEY (processEnv w)) \<longrightarrow>
          chat w body st =
            ((500, ErrorBody \<lparr>error = (js ''Failed to generate SQL query''),
                 details = Some (js ''GEMINI_API_KEY environment variable is not set''),
                 generatedQuery = None\<rparr>), snd (getAllTableSchemas w st)))"
proof (intro conjI impI)
  assume a: "\<not> bq_initialized st \<and> \<not> truthy (BIGQUERY_PROJECT_ID (processEnv w))"
  then have i: "BigQueryService_initialize w st
      = Inl (js ''BIGQUERY_PROJECT_ID environment variable is not set'')"
    by (simp add: BigQueryService_initialize_def)
  from chat_pipeline [OF assms getAllTableSchemas_unconfigured [OF i]] i
  show "chat w body st =
            ((500, ErrorBody \<lparr>error = (js ''Failed to generate SQL query''),
                 details = Some (js ''BIGQUERY_PROJECT_ID environment variable is not set''),
                 generatedQuery = None\<rparr>), st)"
    by (simp add: chat_generate_def getDatasetId_def)
next
  assume a: "\<not> bq_initialized st \<and> truthy (BIGQUERY_PROJECT_ID (processEnv w))
            \<and> \<not> truthy (BIGQUERY_DATASET (processEnv w))"
  then have i: "BigQueryService_initialize w st
      = Inl (js ''BIGQUERY_DATASET environment variable is not set'')"
    by (simp add: BigQueryService_initialize_def)
  from chat_pipeline [OF assms getAllTableSchemas_unconfigured [OF i]] i
  show "chat w body st =
            ((500, ErrorBody \<lparr>error = (js ''Failed to generate SQL query''),
                 details = Some (js ''BIGQUERY_DATASET environment variable is not set''),
                 generatedQuery = None\<rparr>), st)"
    by (simp add: chat_generate_def getDatasetId_def)
next
  assume a: "(bq_initialized st
             \<or> (truthy (BIGQUERY_PROJECT_ID (processEnv w)) \<and> truthy (BIGQUERY_DATASET (processEnv w))))
            \<and> \<not> gm_initialized st \<and> \<not> truthy (GEMINI_API_KEY (processEnv w))"
  obtain r st1 where s: "getAllTableSchemas w st = (r, st1)"
    by (cases "getAllTableSchemas w st")
  from getAllTableSchemas_frame [OF s] a
  have b: "bq_initialized st1" and g: "\<not> gm_initialized st1" by auto
  from b have d: "getDatasetId w st1 = (Inr (bq_datasetId st1), st1)"
    by (simp add: getDatasetId_def bq_init_done)
  from g a have "generateSQL w msg (case r of Inl e \<Rightarrow> [] | Inr schemas \<Rightarrow> schemas)
      (bq_datasetId st1) st1 = (Inl (js ''GEMINI_API_KEY environment variable is not set''), st1)"
    by (simp add: generateSQL_def GeminiService_initialize_def)
  with chat_pipeline [OF assms s] d s
  show "chat w body st =
            ((500, ErrorBody \<lparr>error = (js ''Failed to generate SQL query''),
                 details = Some (js ''GEMINI_API_KEY environment variable is not set''),
                 generatedQuery = None\<rparr>), snd (getAllTableSchemas w st))"
    by (simp add: chat_generate_def)
qed

theorem chat_missing_configuration_witness:
  "chat (stubWorld (fullConfig\<lparr>BIGQUERY_DATASET := Some []\<rparr>) (Inr [(js ''orders'')])
           (Inr (js ''SELECT 1'')) (Inr []) (Inr (js ''ok'')))
        (request (js ''Count the rows'')) constructed =
     ((500, ErrorBody \<lparr>error = (js ''Failed to generate SQL query''),
          details = Some (js ''BIGQUERY_DATASET environment variable is not set''),
          generatedQuery = None\<rparr>), constructed)"
proof -
  let ?w = "stubWorld (fullConfig\<lparr>BIGQUERY_DATASET := Some []\<rparr>) (Inr [(js ''orders'')])
           (Inr (js ''SELECT 1'')) (Inr []) (Inr (js ''ok''))"
  let ?msg = "(js ''Count the rows'')"
  have h1: "destructureMessage ?w (request ?msg) = Inr (JStr ?msg)"
    by (simp add: destructureMessage_def request_def)
  have h2: "validMessage (JStr ?msg) = Some ?msg" by code_simp
  have h3: "\<not> bq_initialized constructed \<and> truthy (BIGQUERY_PROJECT_ID (processEnv ?w))
            \<and> \<not> truthy (BIGQUERY_DATASET (processEnv ?w))"
    by code_simp
  from chat_missing_configuration [OF h1 h2, of constructed] h3 show ?thesis by blast
qed

text \<open>
  C6 as stated fails: with the API key absent, a valid request is answered with an error
  response whose cause is the missing configuration value.
\<close>

theorem chat_missing_api_key_counterexample:
  "GEMINI_API_KEY (processEnv
      (stubWorld (fullConfig\<lparr>GEMINI_API_KEY := None\<rparr>) (Inr [(js ''orders'')])
         (Inr (js ''SELECT 1'')) (Inr []) (Inr (js ''ok'')))) = None
   \<and> fst (chat (stubWorld (fullConfig\<lparr>GEMINI_API_KEY := None\<rparr>) (Inr [(js ''orders'')])
                  (Inr (js ''SELECT 1'')) (Inr []) (Inr (js ''ok'')))
               (request (js ''Count the rows'')) constructed)
     = (500, ErrorBody \<lparr>error = (js ''Failed to generate SQL query''),
                        details = Some (js ''GEMINI_API_KEY environment variable is not set''),
                        generatedQuery = None\<rparr>)"
  by code_simp

section \<open>Runs with strings outside ASCII\<close>

text \<open>
  The white space of \<^verbatim>\<open>trim\<close> is that of the engine: a no-break space around the answer
  of the model is removed by the clean-up, and an answer of no-break spaces only is an
  empty query, answered with 500.
\<close>

lemma cleanSql_no_break_space:
  "cleanSql ([0x00A0] @ js ''SELECT 1'' @ [0x00A0]) = js ''SELECT 1''"
  by code_simp

lemma chat_no_break_space_answer:
  "fst (chat (stubWorld fullConfig (Inr []) (Inr [0x00A0, 0x00A0]) (Inr []) (Inr (js ''ok'')))
          (request (js ''Count the rows'')) constructed) =
     (500, ErrorBody \<lparr>error = js ''Generated SQL query is empty'', details = None,
                      generatedQuery = None\<rparr>)"
  by code_simp

text \<open>
  The SELECT gate follows the case mapping of the engine: where the sharp s is mapped to
  SS, a generated text made of a sharp s and \<^verbatim>\<open>elect 1\<close> passes the gate and is executed.
\<close>

lemma chat_sharp_s_passes_gate:
  "fst (chat ((stubWorld fullConfig (Inr []) (Inr ([0x00DF] @ js ''elect 1''))
                 (Inr [JObj [(js ''f0_'', JNum 1)]]) (Inr (js ''One row'')))
               \<lparr>upperCase := sharpSUpperCase\<rparr>)
          (request (js ''Select one'')) constructed) =
     (200, ChatResult \<lparr>success = True, userQuery = js ''Select one'',
                       sqlQuery = [0x00DF] @ js ''elect 1'', explanation = js ''One row'',
                       results = [JObj [(js ''f0_'', JNum 1)]], resultCount = 1\<rparr>)"
  by code_simp

section \<open>The dataset location\<close>

subsection \<open>Once resolved, the region is kept\<close>

lemma regionKeptI:
  "regionResolved l st' \<Longrightarrow> calls st' = calls st @ cs \<Longrightarrow> list_all (usesRegion l) cs
   \<Longrightarrow> regionKept l st st'"
  by (simp add: regionKept_def)

lemma regionKept_refl: "regionResolved l st \<Longrightarrow> regionKept l st st"
  by (simp add: regionKept_def)

lemma regionKeptD:
  assumes "regionKept l st st'"
  shows "regionResolved l st'" and "\<exists>cs. calls st' = calls st @ cs \<and> list_all (usesRegion l) cs"
proof -
  from assms show "regionResolved l st'" by (simp add: regionKept_def)
  from assms have "calls st' = calls st @ drop (length (calls st)) (calls st')"
    by (metis append_take_drop_id regionKept_def)
  with assms show "\<exists>cs. calls st' = calls st @ cs \<and> list_all (usesRegion l) cs"
    unfolding regionKept_def by blast
qed

lemma regionKept_trans:
  assumes "regionKept l st st1" and "regionKept l st1 st2"
  shows "regionKept l st st2"
proof -
  from regionKeptD(2) [OF assms(1)] obtain cs
    where 1: "calls st1 = calls st @ cs" "list_all (usesRegion l) cs" by blast
  from regionKeptD(2) [OF assms(2)] obtain cs'
    where 2: "calls st2 = calls st1 @ cs'" "list_all (usesRegion l) cs'" by blast
  from 1 2 have "calls st2 = calls st @ (cs @ cs')" "list_all (usesRegion l) (cs @ cs')"
    by simp_all
  with regionKeptD(1) [OF assms(2)] show ?thesis by (rule regionKeptI)
qed

lemma getDatasetLocation_cached:
  "bq_datasetLocation st = Some l \<Longrightarrow> l \<noteq> [] \<Longrightarrow> getDatasetLocation w st = (l, st)"
  by (simp add: getDatasetLocation_unfold truthy_def orDefault_def)

lemma executeQuery_resolved:
  assumes "regionResolved l st"
  shows "snd (executeQuery w q st) = record_call (CreateQueryJob q l) st"
  using assms
  by (simp add: executeQuery_def regionResolved_def bq_init_done getDatasetLocation_cached
      Let_def split: sum.splits)

lemma record_call_kept:
  "regionResolved l st \<Longrightarrow> usesRegion l c \<Longrightarrow> regionKept l st (record_call c st)"
  by (rule regionKeptI [where cs = "[c]"]) (simp_all add: regionResolved_def record_call_def)

lemma executeQuery_kept:
  "regionResolved l st \<Longrightarrow> regionKept l st (snd (executeQuery w q st))"
  by (simp add: executeQuery_resolved record_call_kept usesRegion_def)

lemma gm_init_kept:
  "regionResolved l st \<Longrightarrow> GeminiService_initialize w st = Inr st1 \<Longrightarrow> regionKept l st st1"
  by (rule regionKeptI [where cs = "[]"])
     (auto simp: regionResolved_def GeminiService_initialize_def split: if_splits)

lemma generateSQL_kept:
  assumes "regionResolved l st"
  shows "regionKept l st (snd (generateSQL w q ts ds st))"
proof (cases "GeminiService_initialize w st")
  case (Inl e)
  with assms show ?thesis by (simp add: generateSQL_def regionKept_refl)
next
  case (Inr st1)
  from gm_init_kept [OF assms Inr] have k: "regionKept l st st1" .
  then have "regionResolved l st1" by (rule regionKeptD)
  then have "regionKept l st1 (record_call (GenerateContent (sqlPrompt q ts ds)) st1)"
    by (rule record_call_kept) (simp add: usesRegion_def)
  with k have "regionKept l st (record_call (GenerateContent (sqlPrompt q ts ds)) st1)"
    by (rule regionKept_trans)
  with Inr show ?thesis by (simp add: generateSQL_def Let_def split: sum.splits)
qed

lemma explainResults_kept:
  assumes "regionResolved l st"
  shows "regionKept l st (snd (explainResults w m q rows st))"
proof (cases "GeminiService_initialize w st")
  case (Inl e)
  with assms show ?thesis by (simp add: explainResults_def regionKept_refl)
next
  case (Inr st1)
  from gm_init_kept [OF assms Inr] have k: "regionKept l st st1" .
  then have "regionResolved l st1" by (rule regionKeptD)
  then have "regionKept l st1 (record_call (GenerateContent (explainPrompt w m q rows)) st1)"
    by (rule record_call_kept) (simp add: usesRegion_def)
  with k have "regionKept l st (record_call (GenerateContent (explainPrompt w m q rows)) st1)"
    by (rule regionKept_trans)
  with Inr show ?thesis by (simp add: explainResults_def Let_def split: sum.splits)
qed

lemma getTables_kept:
  assumes "regionResolved l st"
  shows "regionKept l st (snd (getTables w st))"
proof -
  from assms have i: "BigQueryService_initialize w st = Inr st"
    by (simp add: regionResolved_def bq_init_done)
  from assms have "regionKept l st (record_call GetTables st)"
    by (rule record_call_kept) (simp add: usesRegion_def)
  with i show ?thesis by (simp add: getTables_def Let_def split: sum.splits)
qed

lemma getTableSchema_kept:
  assumes "regionResolved l st"
  shows "regionKept l st (snd (getTableSchema w n st))"
proof -
  from assms have i: "BigQueryService_initialize w st = Inr st"
    by (simp add: regionResolved_def bq_init_done)
  from assms have "regionKept l st (record_call (GetTableMetadata n) st)"
    by (rule record_call_kept) (simp add: usesRegion_def)
  with i show ?thesis by (simp add: getTableSchema_def Let_def split: sum.splits)
qed

lemma mapGetTableSchema_kept:
  "regionResolved l st \<Longrightarrow> regionKept l st (snd (mapGetTableSchema w ns st))"
proof (induction ns arbitrary: st)
  case Nil
  then show ?case by (simp add: regionKept_refl)
next
  case (Cons n ns)
  let ?s1 = "snd (getTableSchema w n st)"
  from getTableSchema_kept [OF Cons.prems] have 1: "regionKept l st ?s1" .
  then have "regionResolved l ?s1" by (rule regionKeptD)
  then have "regionKept l ?s1 (snd (mapGetTableSchema w ns ?s1))" by (rule Cons.IH)
  with 1 have "regionKept l st (snd (mapGetTableSchema w ns ?s1))" by (rule regionKept_trans)
  then show ?case by (simp add: Let_def case_prod_beta)
qed

lemma getAllTableSchemas_kept:
  assumes "regionResolved l st"
  shows "regionKept l st (snd (getAllTableSchemas w st))"
proof -
  let ?s1 = "snd (getTables w st)"
  from getTables_kept [OF assms] have 1: "regionKept l st ?s1" .
  then have r1: "regionResolved l ?s1" by (rule regionKeptD)
  show ?thesis
  proof (cases "fst (getTables w st)")
    case (Inl e)
    with 1 show ?thesis by (simp add: getAllTableSchemas_def case_prod_beta)
  next
    case (Inr tables)
    from mapGetTableSchema_kept [OF r1]
    have "regionKept l ?s1 (snd (mapGetTableSchema w tables ?s1))" .
    with 1 have "regionKept l st (snd (mapGetTableSchema w tables ?s1))"
      by (rule regionKept_trans)
    with Inr show ?thesis
      by (simp add: getAllTableSchemas_def Let_def case_prod_beta split: sum.splits)
  qed
qed

lemma chat_respond_kept:
  "regionResolved l st \<Longrightarrow> regionKept l st (snd (chat_respond w msg sql rows st))"
  using explainResults_kept [of l st w msg sql rows]
  by (simp add: chat_respond_def Let_def case_prod_beta)

lemma chat_execute_kept:
  assumes "regionResolved l st"
  shows "regionKept l st (snd (chat_execute w msg sql st))"
proof -
  let ?s1 = "snd (executeQuery w sql st)"
  from executeQuery_kept [OF assms] have 1: "regionKept l st ?s1" .
  then have "regionResolved l ?s1" by (rule regionKeptD)
  then have "\<And>rows. regionKept l ?s1 (snd (chat_respond w msg sql rows ?s1))"
    by (rule chat_respond_kept)
  with 1 have 2: "\<And>rows. regionKept l st (snd (chat_respond w msg sql rows ?s1))"
    by (rule regionKept_trans)
  from assms 1 2 show ?thesis
    by (simp add: chat_execute_def regionKept_refl case_prod_beta split: sum.splits)
qed

lemma chat_generate_kept:
  assumes "regionResolved l st"
  shows "regionKept l st (snd (chat_generate w msg ts st))"
proof -
  from assms have d: "getDatasetId w st = (Inr (bq_datasetId st), st)"
    by (simp add: getDatasetId_def regionResolved_def bq_init_done)
  let ?s1 = "snd (generateSQL w msg ts (bq_datasetId st) st)"
  from generateSQL_kept [OF assms] have 1: "regionKept l st ?s1" .
  then have "regionResolved l ?s1" by (rule regionKeptD)
  then have "\<And>sql. regionKept l ?s1 (snd (chat_execute w msg sql ?s1))"
    by (rule chat_execute_kept)
  with 1 have "\<And>sql. regionKept l st (snd (chat_execute w msg sql ?s1))"
    by (rule regionKept_trans)
  with 1 d show ?thesis
    by (simp add: chat_generate_def case_prod_beta split: sum.splits)
qed

lemma chat_kept:
  assumes "regionResolved l st"
  shows "regionKept l st (snd (chat w body st))"
proof -
  let ?s1 = "snd (getAllTableSchemas w st)"
  from getAllTableSchemas_kept [OF assms] have 1: "regionKept l st ?s1" .
  then have "regionResolved l ?s1" by (rule regionKeptD)
  then have "\<And>msg ts. regionKept l ?s1 (snd (chat_generate w msg ts ?s1))"
    by (rule chat_generate_kept)
  with 1 have "\<And>msg ts. regionKept l st (snd (chat_generate w msg ts ?s1))"
    by (rule regionKept_trans)
  with assms show ?thesis
    by (simp add: chat_def regionKept_refl Let_def case_prod_beta split: sum.splits option.splits)
qed

lemma serve_kept:
  "regionResolved l st \<Longrightarrow> regionKept l st (snd (serve reqs st))"
proof (induction reqs arbitrary: st)
  case Nil
  then show ?case by (simp add: regionKept_refl)
next
  case (Cons req reqs)
  obtain w body where req: "req = (w, body)" by (cases req)
  let ?s1 = "snd (chat w body st)"
  from chat_kept [OF Cons.prems] have 1: "regionKept l st ?s1" .
  then have "regionResolved l ?s1" by (rule regionKeptD)
  then have "regionKept l ?s1 (snd (serve reqs ?s1))" by (rule Cons.IH)
  with 1 have "regionKept l st (snd (serve reqs ?s1))" by (rule regionKept_trans)
  with req show ?case by (simp add: Let_def case_prod_beta)
qed

lemma getDatasetLocation_resolves:
  assumes "bq_initialized st" and "getDatasetLocation w st = (l, st1)"
  shows "regionResolved l st1"
  using assms
  by (auto simp: getDatasetLocation_unfold Let_def record_call_def truthy_def js_US_nonempty
      regionResolved_def orDefault_def split: option.splits if_splits sum.splits)

subsection \<open>The invariant of a process\<close>

lemma unresolved_calls:
  assumes "list_all (\<lambda>c. c \<noteq> GetDatasetMetadata \<and> \<not> isExecution c) cs"
  shows "filter (\<lambda>c. c = GetDatasetMetadata) cs = []" and "list_all (jobIn loc) cs"
  using assms
  by (induction cs) (auto simp: jobIn_def isExecution_def split: call.splits)

lemma bq_init_invariant:
  assumes "regionInvariant st" and "BigQueryService_initialize w st = Inr st1"
  shows "regionInvariant st1"
proof (cases "bq_initialized st")
  case True
  with assms show ?thesis by (simp add: bq_init_done)
next
  case False
  with assms(1) have u: "list_all (\<lambda>c. c \<noteq> GetDatasetMetadata \<and> \<not> isExecution c) (calls st)"
    by (simp add: regionInvariant_def split: if_splits)
  from False assms(2) have c: "calls st1 = calls st" and i: "bq_initialized st1"
    by (auto simp: BigQueryService_initialize_def split: if_splits)
  from u c i unresolved_calls [OF u] show ?thesis
    by (simp add: regionInvariant_def)
qed

lemma gm_init_invariant:
  assumes "regionInvariant st" and "GeminiService_initialize w st = Inr st1"
  shows "regionInvariant st1"
  using assms
  by (auto simp: regionInvariant_def GeminiService_initialize_def split: if_splits)

lemma record_call_invariant:
  assumes "regionInvariant st" and "c \<noteq> GetDatasetMetadata" and "\<not> isExecution c"
  shows "regionInvariant (record_call c st)"
  using assms
  by (auto simp: regionInvariant_def record_call_def jobIn_def isExecution_def
      split: if_splits call.splits)

lemma executeQuery_invariant:
  assumes "regionInvariant st"
  shows "regionInvariant (snd (executeQuery w q st))"
proof (cases "BigQueryService_initialize w st")
  case (Inl e)
  with assms show ?thesis by (simp add: executeQuery_def)
next
  case (Inr st1)
  from bq_init_invariant [OF assms Inr] have inv: "regionInvariant st1" .
  from Inr have i: "bq_initialized st1" by (rule bq_init_cases)
  show ?thesis
  proof (cases "truthy (bq_datasetLocation st1)")
    case True
    then obtain l where l: "bq_datasetLocation st1 = Some l" "l \<noteq> []"
      by (auto simp: truthy_def split: option.splits)
    with inv True have "regionInvariant (record_call (CreateQueryJob q l) st1)"
      by (auto simp: regionInvariant_def record_call_def jobIn_def)
    with Inr l show ?thesis
      by (simp add: executeQuery_def getDatasetLocation_cached Let_def split: sum.splits)
  next
    case False
    with inv have u: "list_all (\<lambda>c. c \<noteq> GetDatasetMetadata \<and> \<not> isExecution c) (calls st1)"
      by (simp add: regionInvariant_def)
    obtain l st2 where f: "getDatasetLocation w st1 = (l, st2)"
      by (cases "getDatasetLocation w st1")
    with False have st2: "bq_datasetLocation st2 = Some l" "l \<noteq> []"
      "calls st2 = calls st1 @ [GetDatasetMetadata]" "bq_initialized st2 = bq_initialized st1"
      by (auto simp: getDatasetLocation_unfold Let_def record_call_def orDefault_def
          js_US_nonempty split: sum.splits option.splits if_splits)
    with i unresolved_calls(1) [OF u] unresolved_calls(2) [OF u, of "Some l"]
    have "regionInvariant (record_call (CreateQueryJob q l) st2)"
      by (simp add: regionInvariant_def record_call_def truthy_def jobIn_def)
    with Inr f show ?thesis
      by (simp add: executeQuery_def Let_def split: sum.splits)
  qed
qed

lemma generateSQL_invariant:
  assumes "regionInvariant st"
  shows "regionInvariant (snd (generateSQL w q ts ds st))"
proof (cases "GeminiService_initialize w st")
  case (Inl e)
  with assms show ?thesis by (simp add: generateSQL_def)
next
  case (Inr st1)
  from gm_init_invariant [OF assms Inr]
  have "regionInvariant (record_call (GenerateContent (sqlPrompt q ts ds)) st1)"
    by (rule record_call_invariant) (simp_all add: isExecution_def)
  with Inr show ?thesis by (simp add: generateSQL_def Let_def split: sum.splits)
qed

lemma explainResults_invariant:
  assumes "regionInvariant st"
  shows "regionInvariant (snd (explainResults w m q rows st))"
proof (cases "GeminiService_initialize w st")
  case (Inl e)
  with assms show ?thesis by (simp add: explainResults_def)
next
  case (Inr st1)
  from gm_init_invariant [OF assms Inr]
  have "regionInvariant (record_call (GenerateContent (explainPrompt w m q rows)) st1)"
    by (rule record_call_invariant) (simp_all add: isExecution_def)
  with Inr show ?thesis by (simp add: explainResults_def Let_def split: sum.splits)
qed

lemma getTables_invariant:
  assumes "regionInvariant st"
  shows "regionInvariant (snd (getTables w st))"
proof (cases "BigQueryService_initialize w st")
  case (Inl e)
  with assms show ?thesis by (simp add: getTables_def)
next
  case (Inr st1)
  from bq_init_invariant [OF assms Inr]
  have "regionInvariant (record_call GetTables st1)"
    by (rule record_call_invariant) (simp_all add: isExecution_def)
  with Inr show ?thesis by (simp add: getTables_def Let_def split: sum.splits)
qed

lemma getTableSchema_invariant:
  assumes "regionInvariant st"
  shows "regionInvariant (snd (getTableSchema w n st))"
proof (cases "BigQueryService_initialize w st")
  case (Inl e)
  with assms show ?thesis by (simp add: getTableSchema_def)
next
  case (Inr st1)
  from bq_init_invariant [OF assms Inr]
  have "regionInvariant (record_call (GetTableMetadata n) st1)"
    by (rule record_call_invariant) (simp_all add: isExecution_def)
  with Inr show ?thesis by (simp add: getTableSchema_def Let_def split: sum.splits)
qed

lemma mapGetTableSchema_invariant:
  "regionInvariant st \<Longrightarrow> regionInvariant (snd (mapGetTableSchema w ns st))"
proof (induction ns arbitrary: st)
  case Nil
  then show ?case by simp
next
  case (Cons n ns)
  from Cons.IH [OF getTableSchema_invariant [OF Cons.prems]]
  show ?case by (simp add: Let_def case_prod_beta)
qed

lemma getAllTableSchemas_invariant:
  assumes "regionInvariant st"
  shows "regionInvariant (snd (getAllTableSchemas w st))"
  using getTables_invariant [OF assms, of w]
    mapGetTableSchema_invariant [OF getTables_invariant [OF assms, of w]]
  by (simp add: getAllTableSchemas_def Let_def case_prod_beta split: sum.splits)

lemma getDatasetId_invariant:
  assumes "regionInvariant st"
  shows "regionInvariant (snd (getDatasetId w st))"
  using assms bq_init_invariant [OF assms]
  by (simp add: getDatasetId_def split: sum.splits)

lemma chat_execute_invariant:
  assumes "regionInvariant st"
  shows "regionInvariant (snd (chat_execute w msg sql st))"
  using assms executeQuery_invariant [OF assms, of w sql]
    explainResults_invariant [OF executeQuery_invariant [OF assms, of w sql]]
  by (simp add: chat_execute_def chat_respond_def Let_def case_prod_beta split: sum.splits)

lemma chat_generate_invariant:
  assumes "regionInvariant st"
  shows "regionInvariant (snd (chat_generate w msg ts st))"
  using getDatasetId_invariant [OF assms, of w]
    generateSQL_invariant [OF getDatasetId_invariant [OF assms, of w]]
    chat_execute_invariant [OF generateSQL_invariant [OF getDatasetId_invariant [OF assms, of w]]]
  by (simp add: chat_generate_def case_prod_beta split: sum.splits)

lemma chat_invariant:
  assumes "regionInvariant st"
  shows "regionInvariant (snd (chat w body st))"
  using assms chat_generate_invariant [OF getAllTableSchemas_invariant [OF assms, of w]]
  by (simp add: chat_def Let_def case_prod_beta split: sum.splits option.splits)

lemma serve_invariant:
  "regionInvariant st \<Longrightarrow> regionInvariant (snd (serve reqs st))"
proof (induction reqs arbitrary: st)
  case Nil
  then show ?case by simp
next
  case (Cons req reqs)
  obtain w body where req: "req = (w, body)" by (cases req)
  from Cons.IH [OF chat_invariant [OF Cons.prems, of w body]] req
  show ?case by (simp add: Let_def case_prod_beta)
qed

lemma regionInvariant_constructed: "regionInvariant constructed"
  by (simp add: regionInvariant_def constructed_def truthy_def)

lemma regionInvariant_once:
  assumes "regionInvariant st"
  shows "length (filter (\<lambda>c. c = GetDatasetMetadata) (calls st)) \<le> 1"
    and "CreateQueryJob q l \<in> set (calls st) \<Longrightarrow> CreateQueryJob q' l' \<in> set (calls st) \<Longrightarrow> l = l'"
proof -
  show "length (filter (\<lambda>c. c = GetDatasetMetadata) (calls st)) \<le> 1"
    using assms unresolved_calls(1) [of "calls st"]
    by (auto simp: regionInvariant_def split: if_splits)
  assume a: "CreateQueryJob q l \<in> set (calls st)" and b: "CreateQueryJob q' l' \<in> set (calls st)"
  show "l = l'"
  proof (cases "truthy (bq_datasetLocation st)")
    case True
    with assms have "list_all (jobIn (bq_datasetLocation st)) (calls st)"
      by (simp add: regionInvariant_def)
    with a b have "jobIn (bq_datasetLocation st) (CreateQueryJob q l)"
      "jobIn (bq_datasetLocation st) (CreateQueryJob q' l')"
      by (auto simp: list_all_iff)
    then show ?thesis by (simp add: jobIn_def)
  next
    case False
    with assms have "list_all (\<lambda>c. c \<noteq> GetDatasetMetadata \<and> \<not> isExecution c) (calls st)"
      by (simp add: regionInvariant_def)
    with a have "\<not> isExecution (CreateQueryJob q l)" by (auto simp: list_all_iff)
    then show ?thesis by (simp add: isExecution_def)
  qed
qed

text \<open>
  C7 (amended), for requests served one after the other, so that no two calls of
  \<^verbatim>\<open>_getDatasetLocation\<close> are in flight at once: a configured location is returned
  unchanged, without a metadata query; otherwise the first call of
  \<^verbatim>\<open>_getDatasetLocation\<close> asks for the metadata once and stores the reported location, or
  "US" when the call fails or reports none; after a call of \<^verbatim>\<open>_getDatasetLocation\<close> on the
  initialised service, whatever requests are served next and whatever the collaborators
  answer, the stored value stays the same, no further metadata query is made, and every
  later \<^verbatim>\<open>executeQuery\<close> runs its job in that location; in a process started from the
  constructors the metadata is asked for at most once and all query jobs run in one
  location.
\<close>
theorem region_resolved_once:
  "(\<not> bq_initialized st \<and> BIGQUERY_LOCATION (processEnv w) = Some l \<and> l \<noteq> []
      \<and> BigQueryService_initialize w st = Inr st0
     \<longrightarrow> getDatasetLocation w' st0 = (l, st0))
   \<and> (\<not> truthy (bq_datasetLocation st) \<and> getDatasetLocation w st = (l, st1)
     \<longrightarrow> l = (case datasetGetMetadata w (bq_bigquery st) (bq_datasetId st) of
                Inl e \<Rightarrow> (js ''US'') | Inr reported \<Rightarrow> orDefault reported (js ''US''))
         \<and> l \<noteq> [] \<and> bq_datasetLocation st1 = Some l
         \<and> calls st1 = calls st @ [GetDatasetMetadata])
   \<and> (bq_initialized st \<and> getDatasetLocation w st = (l, st1) \<and> serve reqs st1 = (resps, st2)
     \<longrightarrow> regionKept l st1 st2
         \<and> getDatasetLocation w' st2 = (l, st2)
         \<and> snd (executeQuery w' q st2) = record_call (CreateQueryJob q l) st2)
   \<and> (serve reqs constructed = (resps, st2)
     \<longrightarrow> length (filter (\<lambda>c. c = GetDatasetMetadata) (calls st2)) \<le> 1
         \<and> (\<forall>q1 l1 q2 l2. CreateQueryJob q1 l1 \<in> set (calls st2)
               \<and> CreateQueryJob q2 l2 \<in> set (calls st2) \<longrightarrow> l1 = l2))"
proof -
  have c1: "\<not> bq_initialized st \<and> BIGQUERY_LOCATION (processEnv w) = Some l \<and> l \<noteq> []
      \<and> BigQueryService_initialize w st = Inr st0
     \<longrightarrow> getDatasetLocation w' st0 = (l, st0)"
  proof
    assume "\<not> bq_initialized st \<and> BIGQUERY_LOCATION (processEnv w) = Some l \<and> l \<noteq> []
      \<and> BigQueryService_initialize w st = Inr st0"
    then have "bq_datasetLocation st0 = Some l" and "l \<noteq> []"
      by (auto simp: BigQueryService_initialize_def truthy_def split: if_splits)
    then show "getDatasetLocation w' st0 = (l, st0)" by (rule getDatasetLocation_cached)
  qed
  have c2: "\<not> truthy (bq_datasetLocation st) \<and> getDatasetLocation w st = (l, st1)
     \<longrightarrow> l = (case datasetGetMetadata w (bq_bigquery st) (bq_datasetId st) of
                Inl e \<Rightarrow> (js ''US'') | Inr reported \<Rightarrow> orDefault reported (js ''US''))
         \<and> l \<noteq> [] \<and> bq_datasetLocation st1 = Some l
         \<and> calls st1 = calls st @ [GetDatasetMetadata]"
  proof
    assume "\<not> truthy (bq_datasetLocation st) \<and> getDatasetLocation w st = (l, st1)"
    then show "l = (case datasetGetMetadata w (bq_bigquery st) (bq_datasetId st) of
                Inl e \<Rightarrow> (js ''US'') | Inr reported \<Rightarrow> orDefault reported (js ''US''))
         \<and> l \<noteq> [] \<and> bq_datasetLocation st1 = Some l
         \<and> calls st1 = calls st @ [GetDatasetMetadata]"
      by (auto simp: getDatasetLocation_unfold Let_def record_call_def orDefault_def
          js_US_nonempty split: sum.splits option.splits if_splits)
  qed
  have c3: "bq_initialized st \<and> getDatasetLocation w st = (l, st1) \<and> serve reqs st1 = (resps, st2)
     \<longrightarrow> regionKept l st1 st2
         \<and> getDatasetLocation w' st2 = (l, st2)
         \<and> snd (executeQuery w' q st2) = record_call (CreateQueryJob q l) st2"
  proof
    assume a: "bq_initialized st \<and> getDatasetLocation w st = (l, st1) \<and> serve reqs st1 = (resps, st2)"
    then have r1: "regionResolved l st1" by (auto intro: getDatasetLocation_resolves)
    from serve_kept [OF r1, of reqs] a have k: "regionKept l st1 st2" by simp
    then have r2: "regionResolved l st2" by (rule regionKeptD)
    then have "getDatasetLocation w' st2 = (l, st2)"
      by (simp add: regionResolved_def getDatasetLocation_cached)
    with k executeQuery_resolved [OF r2]
    show "regionKept l st1 st2
         \<and> getDatasetLocation w' st2 = (l, st2)
         \<and> snd (executeQuery w' q st2) = record_call (CreateQueryJob q l) st2"
      by simp
  qed
  have c4: "serve reqs constructed = (resps, st2)
     \<longrightarrow> length (filter (\<lambda>c. c = GetDatasetMetadata) (calls st2)) \<le> 1
         \<and> (\<forall>q1 l1 q2 l2. CreateQueryJob q1 l1 \<in> set (calls st2)
               \<and> CreateQueryJob q2 l2 \<in> set (calls st2) \<longrightarrow> l1 = l2)"
  proof
    assume a: "serve reqs constructed = (resps, st2)"
    from serve_invariant [OF regionInvariant_constructed, of reqs] a
    have inv: "regionInvariant st2" by simp
    from regionInvariant_once [OF inv]
    show "length (filter (\<lambda>c. c = GetDatasetMetadata) (calls st2)) \<le> 1
         \<and> (\<forall>q1 l1 q2 l2. CreateQueryJob q1 l1 \<in> set (calls st2)
               \<and> CreateQueryJob q2 l2 \<in> set (calls st2) \<longrightarrow> l1 = l2)"
      by blast
  qed
  show ?thesis by (rule conjI [OF c1 conjI [OF c2 conjI [OF c3 c4]]])
qed

theorem region_resolved_once_witness:
  "filter (\<lambda>c. c = GetDatasetMetadata \<or> isExecution c)
     (calls (snd (serve
        [(stubWorld fullConfig (Inr []) (Inr (js ''SELECT 1'')) (Inr []) (Inr (js ''ok'')),
          request (js ''first'')),
         ((stubWorld fullConfig (Inr []) (Inr (js ''SELECT 2'')) (Inr []) (Inr (js ''ok'')))
            \<lparr>datasetGetMetadata := (\<lambda>client ds. Inr (Some (js ''ASIA'')))\<rparr>,
          request (js ''second''))]
        constructed)))
     = [GetDatasetMetadata, CreateQueryJob (js ''SELECT 1'') (js ''EU''), CreateQueryJob (js ''SELECT 2'') (js ''EU'')]
   \<and> length (filter (\<lambda>c. c = GetDatasetMetadata)
       (calls (snd (serve
        [(stubWorld fullConfig (Inr []) (Inr (js ''SELECT 1'')) (Inr []) (Inr (js ''ok'')),
          request (js ''first'')),
         ((stubWorld fullConfig (Inr []) (Inr (js ''SELECT 2'')) (Inr []) (Inr (js ''ok'')))
            \<lparr>datasetGetMetadata := (\<lambda>client ds. Inr (Some (js ''ASIA'')))\<rparr>,
          request (js ''second''))]
        constructed)))) \<le> 1"
proof -
  let ?reqs = "[(stubWorld fullConfig (Inr []) (Inr (js ''SELECT 1'')) (Inr []) (Inr (js ''ok'')),
          request (js ''first'')),
         ((stubWorld fullConfig (Inr []) (Inr (js ''SELECT 2'')) (Inr []) (Inr (js ''ok'')))
            \<lparr>datasetGetMetadata := (\<lambda>client ds. Inr (Some (js ''ASIA'')))\<rparr>,
          request (js ''second''))]"
  have 1: "filter (\<lambda>c. c = GetDatasetMetadata \<or> isExecution c) (calls (snd (serve ?reqs constructed)))
     = [GetDatasetMetadata, CreateQueryJob (js ''SELECT 1'') (js ''EU''), CreateQueryJob (js ''SELECT 2'') (js ''EU'')]"
    by code_simp
  have h: "serve ?reqs constructed = (fst (serve ?reqs constructed), snd (serve ?reqs constructed))"
    by simp
  from region_resolved_once [of _ _ _ _ _ _ ?reqs "fst (serve ?reqs constructed)" "snd (serve ?reqs constructed)"] h
  have "length (filter (\<lambda>c. c = GetDatasetMetadata) (calls (snd (serve ?reqs constructed)))) \<le> 1"
    by blast
  with 1 show ?thesis by blast
qed

text \<open>
  C7 as stated fails for two requests served concurrently on the initialised service with
  no location held: both calls pass the test before either answer has arrived, so the
  metadata is asked for twice; the first call stores and returns EU, and the second, whose
  request fails, then replaces it by US.
\<close>
theorem overlapping_lookups_counterexample:
  "fst (fst (overlappingLookups (Inr (Some (js ''EU''))) (Inl (js ''deadline exceeded''))
        (constructed\<lparr>bq_bigquery := Some (js ''project''), bq_datasetId := Some (js ''dataset''),
                      bq_initialized := True\<rparr>))) = js ''EU''
   \<and> bq_datasetLocation
       (snd (fst (overlappingLookups (Inr (Some (js ''EU''))) (Inl (js ''deadline exceeded''))
        (constructed\<lparr>bq_bigquery := Some (js ''project''), bq_datasetId := Some (js ''dataset''),
                      bq_initialized := True\<rparr>)))) = Some (js ''EU'')
   \<and> fst (snd (overlappingLookups (Inr (Some (js ''EU''))) (Inl (js ''deadline exceeded''))
        (constructed\<lparr>bq_bigquery := Some (js ''project''), bq_datasetId := Some (js ''dataset''),
                      bq_initialized := True\<rparr>))) = js ''US''
   \<and> bq_datasetLocation
       (snd (snd (overlappingLookups (Inr (Some (js ''EU''))) (Inl (js ''deadline exceeded''))
        (constructed\<lparr>bq_bigquery := Some (js ''project''), bq_datasetId := Some (js ''dataset''),
                      bq_initialized := True\<rparr>)))) = Some (js ''US'')
   \<and> calls
       (snd (snd (overlappingLookups (Inr (Some (js ''EU''))) (Inl (js ''deadline exceeded''))
        (constructed\<lparr>bq_bigquery := Some (js ''project''), bq_datasetId := Some (js ''dataset''),
                      bq_initialized := True\<rparr>)))) = [GetDatasetMetadata, GetDatasetMetadata]"
  by code_simp

end
